theory Spec2Isabelle
  imports Complex_Main "HOL-Library.Word"
begin

unbundle bit_operations_syntax

section \<open>Python values shared by both modules\<close>

text \<open>
  The exceptions that the modelled code can raise or let through. \<open>FileNotFoundError\<close>
  (errno \<open>ENOENT\<close>), \<open>NotADirectoryError\<close> (\<open>ENOTDIR\<close>) and \<open>PermissionError\<close> are
  subclasses of \<open>OSError\<close>; the constructor \<open>OSError\<close> stands for every other I/O
  failure, with its errno. In Python 3 the name \<open>IOError\<close> is an alias of \<open>OSError\<close>, so
  \<open>except IOError\<close> catches all of them.
\<close>

datatype errno = EBADF | ELOOP | EEXIST | ENOTEMPTY | EISDIR | EIO

datatype error =
    NameError | AttributeError | TypeError | ValueError | AssertionError
  | NotImplementedError | SFTPError | LookupError | UnicodeError
  | FileNotFoundError | NotADirectoryError | PermissionError | OSError errno

fun is_OSError :: "error \<Rightarrow> bool" where
  "is_OSError FileNotFoundError = True"
| "is_OSError NotADirectoryError = True"
| "is_OSError PermissionError = True"
| "is_OSError (OSError n) = True"
| "is_OSError _ = False"

text \<open>
  A call that can raise and can change the state of the collaborators returns the
  result (or the exception) together with the state reached: what was done before an
  exception stays done.
\<close>

type_synonym ('a, 's) res = "(error + 'a) \<times> 's"

fun map_result :: "('a \<Rightarrow> error + 'b) \<Rightarrow> 'a list \<Rightarrow> error + 'b list" where
  "map_result f [] = Inr []"
| "map_result f (x # xs) =
     (case f x of
        Inl e \<Rightarrow> Inl e
      | Inr y \<Rightarrow> (case map_result f xs of Inl e \<Rightarrow> Inl e | Inr ys \<Rightarrow> Inr (y # ys)))"

subsection \<open>pathlib pure paths\<close>

text \<open>
  A pure path is the list of its components (\<open>PurePath.parts\<close>). The anchor of an
  absolute path is its first component: \<open>''//''\<close> when the string starts with exactly
  two slashes, \<open>''/''\<close> when it starts with one or with three and more. \<open>relative_to\<close>
  raises \<open>ValueError\<close> when the other path is not a prefix, and an absolute path is not
  relative to a relative one.
\<close>

type_synonym path = "string list"

fun split_slash :: "string \<Rightarrow> string list" where
  "split_slash [] = [[]]"
| "split_slash (c # cs) =
     (if c = CHR ''/'' then [] # split_slash cs
      else (case split_slash cs of [] \<Rightarrow> [[c]] | x # xs \<Rightarrow> (c # x) # xs))"

definition anchor :: "string \<Rightarrow> string list" where
  "anchor s =
     (if take 2 s = ''//'' \<and> take 3 s \<noteq> ''///'' then [''//'']
      else if take 1 s = ''/'' then [''/'']
      else [])"

definition is_anchor :: "string \<Rightarrow> bool" where
  "is_anchor c = (c = ''/'' \<or> c = ''//'')"

definition Path :: "string \<Rightarrow> path" where
  "Path s = anchor s @ filter (\<lambda>c. c \<noteq> [] \<and> c \<noteq> ''.'') (split_slash s)"

fun join_slash :: "string list \<Rightarrow> string" where
  "join_slash [] = []"
| "join_slash [c] = c"
| "join_slash (c # cs) = c @ ''/'' @ join_slash cs"

fun as_posix :: "path \<Rightarrow> string" where
  "as_posix [] = ''.''"
| "as_posix (c # cs) = (if is_anchor c then c @ join_slash cs else join_slash (c # cs))"

definition truediv :: "path \<Rightarrow> path \<Rightarrow> path" where
  "truediv p q = (if q \<noteq> [] \<and> is_anchor (hd q) then q else p @ q)"

fun drop_prefix :: "path \<Rightarrow> path \<Rightarrow> error + path" where
  "drop_prefix p [] = Inr p"
| "drop_prefix [] (a # as) = Inl ValueError"
| "drop_prefix (c # cs) (a # as) = (if c = a then drop_prefix cs as else Inl ValueError)"

definition relative_to :: "path \<Rightarrow> path \<Rightarrow> error + path" where
  "relative_to p other =
     (if other = [] \<and> p \<noteq> [] \<and> is_anchor (hd p) then Inl ValueError
      else drop_prefix p other)"

subsection \<open>stat results\<close>

text \<open>
  One record for \<open>os.stat_result\<close> and paramiko's \<open>SFTPAttributes\<close>. Times are reals: a
  local time has a fractional part, a remote one is integral. \<open>filename\<close> is set in the
  entries of a directory listing.
\<close>

record stat_result =
  filename :: string
  st_mode :: nat
  st_size :: nat
  st_atime :: real
  st_mtime :: real

text \<open>
  The file-type bits of a mode, as in Python's \<open>stat\<close> module: \<open>S_IFMT\<close> is octal
  170000, \<open>S_IFDIR\<close> octal 040000 and \<open>S_IFREG\<close> octal 100000.
\<close>

definition S_IFMT :: "nat \<Rightarrow> nat" where
  "S_IFMT mode = mode AND 61440"

definition S_ISDIR :: "nat \<Rightarrow> bool" where
  "S_ISDIR mode = (S_IFMT mode = 16384)"

definition S_ISREG :: "nat \<Rightarrow> bool" where
  "S_ISREG mode = (S_IFMT mode = 32768)"

text \<open>Python's \<open>int\<close> of a float truncates towards zero.\<close>

definition py_int :: "real \<Rightarrow> int" where
  "py_int x = (if 0 \<le> x then \<lfloor>x\<rfloor> else \<lceil>x\<rceil>)"

section \<open>The collaborators\<close>

text \<open>
  The transport (paramiko's \<open>SFTPClient\<close>, the base class of \<open>SFTPHandler\<close>) and the
  local file system (\<open>os\<close>, \<open>pathlib\<close>) are outside the repository. They are parameters
  of the model: a record of primitives over a state \<open>'s\<close>. A primitive that reads
  returns a value or an exception; one that writes returns the new state or an
  exception, and leaves the state as it was when it raises.
\<close>

type_synonym bytes = "8 word list"

text \<open>A Python \<open>str\<close> is a sequence of code points.\<close>

type_synonym pystr = "nat list"

datatype data = Bytes bytes | Str pystr

text \<open>
  An open remote file (paramiko's \<open>SFTPFile\<close>): its mode flags and the handle the
  server gave. \<open>FLAG_BINARY\<close> is the constant 0x10 of paramiko's \<open>BufferedFile\<close>, set
  when the mode string has a \<open>b\<close>.
\<close>

record SFTPFile =
  u_flags :: nat
  u_handle :: nat

definition FLAG_BINARY :: nat where
  "FLAG_BINARY = 16"

text \<open>The two requests that \<open>touch\<close> sends through \<open>_request\<close>.\<close>

datatype request = CMD_OPEN string nat | CMD_CLOSE bytes

definition CMD_HANDLE :: nat where
  "CMD_HANDLE = 102"

definition SFTP_FLAG_WRITE :: nat where
  "SFTP_FLAG_WRITE = 2"

definition SFTP_FLAG_CREATE :: nat where
  "SFTP_FLAG_CREATE = 8"

definition SFTP_FLAG_EXCL :: nat where
  "SFTP_FLAG_EXCL = 32"

record 's system =
  sftp_stat :: "'s \<Rightarrow> string \<Rightarrow> error + stat_result"
  sftp_listdir_attr :: "'s \<Rightarrow> string \<Rightarrow> error + stat_result list"
  sftp_mkdir :: "'s \<Rightarrow> string \<Rightarrow> error + 's"
  sftp_rmdir :: "'s \<Rightarrow> string \<Rightarrow> error + 's"
  sftp_remove :: "'s \<Rightarrow> string \<Rightarrow> error + 's"
  sftp_utime :: "'s \<Rightarrow> string \<Rightarrow> real \<times> real \<Rightarrow> error + 's"
  sftp_put :: "'s \<Rightarrow> string \<Rightarrow> string \<Rightarrow> bool \<Rightarrow> error + stat_result \<times> 's"
  sftp_open :: "'s \<Rightarrow> string \<Rightarrow> string \<Rightarrow> error + SFTPFile \<times> 's"
  sftp_request :: "'s \<Rightarrow> request \<Rightarrow> error + (nat \<times> bytes) \<times> 's"
  file_read :: "'s \<Rightarrow> SFTPFile \<Rightarrow> nat option \<Rightarrow> error + bytes \<times> 's"
  file_write :: "'s \<Rightarrow> SFTPFile \<Rightarrow> data \<Rightarrow> error + 's"
  os_stat :: "'s \<Rightarrow> string \<Rightarrow> error + stat_result"
  os_utime :: "'s \<Rightarrow> string \<Rightarrow> real \<times> real \<Rightarrow> error + 's"
  os_rglob :: "'s \<Rightarrow> path \<Rightarrow> path list"
  codec_encode :: "string \<Rightarrow> pystr \<Rightarrow> error + bytes"
  codec_decode :: "string \<Rightarrow> bytes \<Rightarrow> error + pystr"

definition write_res :: "'s \<Rightarrow> error + 's \<Rightarrow> (unit, 's) res" where
  "write_res s r = (case r of Inl e \<Rightarrow> (Inl e, s) | Inr s' \<Rightarrow> (Inr (), s'))"

section \<open>server.py: the stream adapter\<close>

record FileHandler =
  file_handler :: SFTPFile
  encoding :: "string option"
  errors :: "string option"
  newline :: "string option"

definition SFTPHandler_open ::
  "'s system \<Rightarrow> 's \<Rightarrow> string \<Rightarrow> string \<Rightarrow> string option \<Rightarrow> string option \<Rightarrow>
   string option \<Rightarrow> (FileHandler, 's) res" where
  "SFTPHandler_open S s fname mode enc errs nl =
     (case sftp_open S s fname mode of
        Inl e \<Rightarrow> (Inl e, s)
      | Inr (f, s') \<Rightarrow>
          (Inr \<lparr>file_handler = f, encoding = enc, errors = errs, newline = nl\<rparr>, s'))"

definition u_is_binary :: "FileHandler \<Rightarrow> nat" where
  "u_is_binary fh = u_flags (file_handler fh) AND FLAG_BINARY"

text \<open>
  \<open>bytes.decode(encoding)\<close> and \<open>str.encode(encoding)\<close>: a \<open>None\<close> encoding is a
  \<open>TypeError\<close>; \<open>bytes\<close> has no \<open>encode\<close> and \<open>str\<close> no \<open>decode\<close>.
\<close>

definition decode :: "'s system \<Rightarrow> data \<Rightarrow> string option \<Rightarrow> error + data" where
  "decode S d enc =
     (case d of
        Str t \<Rightarrow> Inl AttributeError
      | Bytes b \<Rightarrow>
          (case enc of
             None \<Rightarrow> Inl TypeError
           | Some n \<Rightarrow> (case codec_decode S n b of Inl e \<Rightarrow> Inl e | Inr t \<Rightarrow> Inr (Str t))))"

definition encode :: "'s system \<Rightarrow> data \<Rightarrow> string option \<Rightarrow> error + data" where
  "encode S d enc =
     (case d of
        Bytes b \<Rightarrow> Inl AttributeError
      | Str t \<Rightarrow>
          (case enc of
             None \<Rightarrow> Inl TypeError
           | Some n \<Rightarrow> (case codec_encode S n t of Inl e \<Rightarrow> Inl e | Inr b \<Rightarrow> Inr (Bytes b))))"

definition FileHandler_read :: "'s system \<Rightarrow> 's \<Rightarrow> FileHandler \<Rightarrow> nat option \<Rightarrow> (data, 's) res" where
  "FileHandler_read S s fh sz =
     (case file_read S s (file_handler fh) sz of
        Inl e \<Rightarrow> (Inl e, s)
      | Inr (text, s') \<Rightarrow>
          (if u_is_binary fh = 0 then (decode S (Bytes text) (encoding fh), s')
           else (Inr (Bytes text), s')))"

definition FileHandler_write :: "'s system \<Rightarrow> 's \<Rightarrow> FileHandler \<Rightarrow> data \<Rightarrow> (unit, 's) res" where
  "FileHandler_write S s fh text =
     (if u_is_binary fh = 0 then
        (case encode S text (encoding fh) of
           Inl e \<Rightarrow> (Inl e, s)
         | Inr text' \<Rightarrow> write_res s (file_write S s (file_handler fh) text'))
      else write_res s (file_write S s (file_handler fh) text))"

section \<open>webpath.py: the path handle\<close>

text \<open>
  The names bound at module level in \<open>webpath.py\<close>, by its imports, its assignment
  and its class statement, and the attributes an instance of \<open>WebPath\<close> has: the three
  set by the constructor and the methods and properties of the class. A name or an
  attribute that is looked up and is not there raises.
\<close>

definition webpath_globals :: "string list" where
  "webpath_globals =
     [''logging'', ''io'', ''sftp'', ''sftp_attr'', ''sftp_file'', ''S_ISDIR'', ''S_ISREG'',
      ''logger'', ''WebPath'']"

definition WebPath_attributes :: "string list" where
  "WebPath_attributes =
     [''_path'', ''_accessor'', ''_stat'', ''from_attr'', ''stat'', ''_reset_stat'', ''parent'',
      ''name'', ''as_posix'', ''relative_to'', ''_mode'', ''is_dir'', ''is_file'', ''open'',
      ''read_text'', ''write_text'', ''read_bytes'', ''write_bytes'', ''mkdir'', ''rmdir'',
      ''touch'', ''unlink'']"

definition lookup_name :: "string list \<Rightarrow> string \<Rightarrow> error + unit" where
  "lookup_name names n = (if n \<in> set names then Inr () else Inl NameError)"

definition lookup_attribute :: "string list \<Rightarrow> string \<Rightarrow> error + unit" where
  "lookup_attribute attrs n = (if n \<in> set attrs then Inr () else Inl AttributeError)"

text \<open>
  The accessor of a handle is a reference to the SFTP handler; the fields and methods
  whose Python name starts with an underscore are written with the prefix \<open>u_\<close>.
\<close>

type_synonym accessor = nat

record WebPath =
  u_path :: path
  u_accessor :: "accessor option"
  u_stat :: "stat_result option"

definition from_attr :: "string \<Rightarrow> accessor option \<Rightarrow> stat_result \<Rightarrow> error + WebPath" where
  "from_attr parent acc st =
     (case lookup_name webpath_globals ''Path'' of
        Inl e \<Rightarrow> Inl e
      | Inr _ \<Rightarrow>
          Inr \<lparr>u_path = truediv (Path parent) (Path (filename st)), u_accessor = acc,
               u_stat = Some st\<rparr>)"

definition fspath :: "WebPath \<Rightarrow> string" where
  "fspath w = as_posix (u_path w)"

definition stat :: "'s system \<Rightarrow> 's \<Rightarrow> WebPath \<Rightarrow> (error + stat_result) \<times> WebPath" where
  "stat S s w =
     (case u_stat w of
        Some st \<Rightarrow> (Inr st, w)
      | None \<Rightarrow>
          (case u_accessor w of
             None \<Rightarrow> (Inl AttributeError, w)
           | Some a \<Rightarrow>
               (case sftp_stat S s (fspath w) of
                  Inl e \<Rightarrow> (Inl e, w)
                | Inr st \<Rightarrow> (Inr st, w\<lparr>u_stat := Some st\<rparr>))))"

definition u_reset_stat :: "WebPath \<Rightarrow> WebPath" where
  "u_reset_stat w = w\<lparr>u_stat := None\<rparr>"

definition WebPath_relative_to :: "WebPath \<Rightarrow> path \<Rightarrow> error + WebPath" where
  "WebPath_relative_to w ancestor =
     (case relative_to (u_path w) ancestor of
        Inl e \<Rightarrow> Inl e
      | Inr p \<Rightarrow>
          (case lookup_attribute WebPath_attributes ''_system'' of
             Inl e \<Rightarrow> Inl e
           | Inr _ \<Rightarrow> Inr \<lparr>u_path = p, u_accessor = None, u_stat = None\<rparr>))"

definition WebPath_truediv :: "WebPath \<Rightarrow> path \<Rightarrow> WebPath" where
  "WebPath_truediv w other =
     \<lparr>u_path = truediv (u_path w) other, u_accessor = u_accessor w, u_stat = None\<rparr>"

definition u_mode :: "'s system \<Rightarrow> 's \<Rightarrow> WebPath \<Rightarrow> (error + nat) \<times> WebPath" where
  "u_mode S s w =
     (case stat S s w of (Inl e, w') \<Rightarrow> (Inl e, w') | (Inr st, w') \<Rightarrow> (Inr (st_mode st), w'))"

definition is_dir :: "'s system \<Rightarrow> 's \<Rightarrow> WebPath \<Rightarrow> (error + bool) \<times> WebPath" where
  "is_dir S s w =
     (case u_mode S s w of
        (Inl e, w') \<Rightarrow> (if e = FileNotFoundError then Inr False else Inl e, w')
      | (Inr m, w') \<Rightarrow> (Inr (S_ISDIR m), w'))"

definition is_file :: "'s system \<Rightarrow> 's \<Rightarrow> WebPath \<Rightarrow> (error + bool) \<times> WebPath" where
  "is_file S s w =
     (case u_mode S s w of
        (Inl e, w') \<Rightarrow> (if e = FileNotFoundError then Inr False else Inl e, w')
      | (Inr m, w') \<Rightarrow> (Inr (S_ISREG m), w'))"

text \<open>
  The mutating operations return the handle as the call leaves it, next to the result
  and the state. \<open>touch\<close> catches under the name \<open>Excpetion\<close>, which is looked up only
  when the close request raises.
\<close>

type_synonym ('a, 's) hres = "(error + 'a) \<times> WebPath \<times> 's"

definition WebPath_open ::
  "'s system \<Rightarrow> 's \<Rightarrow> WebPath \<Rightarrow> string \<Rightarrow> string option \<Rightarrow> string option \<Rightarrow>
   string option \<Rightarrow> (FileHandler, 's) hres" where
  "WebPath_open S s w mode enc errs nl =
     (let w' = u_reset_stat w in
      case u_accessor w' of
        None \<Rightarrow> (Inl AttributeError, w', s)
      | Some a \<Rightarrow>
          (case SFTPHandler_open S s (fspath w') mode enc errs nl of (r, s') \<Rightarrow> (r, w', s')))"

definition mkdir :: "'s system \<Rightarrow> 's \<Rightarrow> WebPath \<Rightarrow> bool \<Rightarrow> (unit, 's) hres" where
  "mkdir S s w parents =
     (if parents then (Inl AssertionError, w, s)
      else
        (let w' = u_reset_stat w in
         case u_accessor w' of
           None \<Rightarrow> (Inl AttributeError, w', s)
         | Some a \<Rightarrow> (case write_res s (sftp_mkdir S s (fspath w')) of (r, s') \<Rightarrow> (r, w', s'))))"

definition rmdir :: "'s system \<Rightarrow> 's \<Rightarrow> WebPath \<Rightarrow> (unit, 's) hres" where
  "rmdir S s w =
     (let w' = u_reset_stat w in
      case u_accessor w' of
        None \<Rightarrow> (Inl AttributeError, w', s)
      | Some a \<Rightarrow> (case write_res s (sftp_rmdir S s (fspath w')) of (r, s') \<Rightarrow> (r, w', s')))"

definition touch :: "'s system \<Rightarrow> 's \<Rightarrow> WebPath \<Rightarrow> bool \<Rightarrow> (unit, 's) hres" where
  "touch S s w exist_ok =
     (let w' = u_reset_stat w;
          flags = SFTP_FLAG_CREATE OR SFTP_FLAG_WRITE;
          flags = (if \<not> exist_ok then flags OR SFTP_FLAG_EXCL else flags)
      in
      case u_accessor w' of
        None \<Rightarrow> (Inl AttributeError, w', s)
      | Some a \<Rightarrow>
          (case sftp_request S s (CMD_OPEN (fspath w') flags) of
             Inl e \<Rightarrow> (Inl e, w', s)
           | Inr ((t, msg), s1) \<Rightarrow>
               (if t \<noteq> CMD_HANDLE then (Inl SFTPError, w', s1)
                else
                  (case sftp_request S s1 (CMD_CLOSE msg) of
                     Inl e \<Rightarrow>
                       (case lookup_name webpath_globals ''Excpetion'' of
                          Inl e' \<Rightarrow> (Inl e', w', s1)
                        | Inr _ \<Rightarrow> (Inr (), w', s1))
                   | Inr (_, s2) \<Rightarrow> (Inr (), w', s2)))))"

definition unlink :: "'s system \<Rightarrow> 's \<Rightarrow> WebPath \<Rightarrow> (unit, 's) hres" where
  "unlink S s w =
     (let w' = u_reset_stat w in
      case u_accessor w' of
        None \<Rightarrow> (Inl AttributeError, w', s)
      | Some a \<Rightarrow> (case write_res s (sftp_remove S s (fspath w')) of (r, s') \<Rightarrow> (r, w', s')))"

section \<open>server.py: the tree snapshot\<close>

text \<open>
  The elements of a snapshot's sequence are Python objects: a \<open>pathlib.Path\<close> from the
  local walk, a \<open>WebPath\<close> from the remote walk, or whatever else a call put there.
  A method call on an element is dispatched on what the element is. A local path
  answers \<open>is_dir\<close> and \<open>is_file\<close> from \<open>os.stat\<close>, with false for the failures that
  pathlib ignores: \<open>ENOENT\<close>, \<open>ENOTDIR\<close>, \<open>EBADF\<close> and \<open>ELOOP\<close>.
\<close>

datatype pyval = LocalPath path | RemotePath WebPath | PyBool bool

fun ignore_error :: "error \<Rightarrow> bool" where
  "ignore_error FileNotFoundError = True"
| "ignore_error NotADirectoryError = True"
| "ignore_error (OSError EBADF) = True"
| "ignore_error (OSError ELOOP) = True"
| "ignore_error _ = False"

definition Path_is_dir :: "'s system \<Rightarrow> 's \<Rightarrow> path \<Rightarrow> error + bool" where
  "Path_is_dir S s p =
     (case os_stat S s (as_posix p) of
        Inl e \<Rightarrow> (if ignore_error e then Inr False else Inl e)
      | Inr st \<Rightarrow> Inr (S_ISDIR (st_mode st)))"

definition Path_is_file :: "'s system \<Rightarrow> 's \<Rightarrow> path \<Rightarrow> error + bool" where
  "Path_is_file S s p =
     (case os_stat S s (as_posix p) of
        Inl e \<Rightarrow> (if ignore_error e then Inr False else Inl e)
      | Inr st \<Rightarrow> Inr (S_ISREG (st_mode st)))"

fun call_is_dir :: "'s system \<Rightarrow> 's \<Rightarrow> pyval \<Rightarrow> error + bool" where
  "call_is_dir S s (LocalPath p) = Path_is_dir S s p"
| "call_is_dir S s (RemotePath w) = fst (is_dir S s w)"
| "call_is_dir S s (PyBool b) = Inl AttributeError"

fun call_is_file :: "'s system \<Rightarrow> 's \<Rightarrow> pyval \<Rightarrow> error + bool" where
  "call_is_file S s (LocalPath p) = Path_is_file S s p"
| "call_is_file S s (RemotePath w) = fst (is_file S s w)"
| "call_is_file S s (PyBool b) = Inl AttributeError"

fun call_stat :: "'s system \<Rightarrow> 's \<Rightarrow> pyval \<Rightarrow> error + stat_result" where
  "call_stat S s (LocalPath p) = os_stat S s (as_posix p)"
| "call_stat S s (RemotePath w) = fst (stat S s w)"
| "call_stat S s (PyBool b) = Inl AttributeError"

fun call_relative_to :: "pyval \<Rightarrow> path \<Rightarrow> error + pyval" where
  "call_relative_to (LocalPath p) r =
     (case relative_to p r of Inl e \<Rightarrow> Inl e | Inr q \<Rightarrow> Inr (LocalPath q))"
| "call_relative_to (RemotePath w) r =
     (case WebPath_relative_to w r of Inl e \<Rightarrow> Inl e | Inr q \<Rightarrow> Inr (RemotePath q))"
| "call_relative_to (PyBool b) r = Inl AttributeError"

fun call_as_posix :: "pyval \<Rightarrow> error + string" where
  "call_as_posix (LocalPath p) = Inr (as_posix p)"
| "call_as_posix (RemotePath w) = Inr (fspath w)"
| "call_as_posix (PyBool b) = Inl AttributeError"

text \<open>
  Reading the attribute \<open>is_dir\<close> without calling it gives a bound method object on a
  path, and raises on an object that has no such attribute. A method object defines
  neither \<open>__bool__\<close> nor \<open>__len__\<close>, so it counts as true.
\<close>

datatype bound_method = BoundMethod pyval string

fun getattr_method :: "pyval \<Rightarrow> string \<Rightarrow> error + bound_method" where
  "getattr_method (LocalPath p) n = Inr (BoundMethod (LocalPath p) n)"
| "getattr_method (RemotePath w) n =
     (case lookup_attribute WebPath_attributes n of
        Inl e \<Rightarrow> Inl e
      | Inr _ \<Rightarrow> Inr (BoundMethod (RemotePath w) n))"
| "getattr_method (PyBool b) n = Inl AttributeError"

definition truth_value :: "bound_method \<Rightarrow> bool" where
  "truth_value m = True"

record TreeList =
  root_tl :: path
  paths :: "pyval list"

text \<open>
  A generator is modelled by what it yields and the exception that ends it, if any.
  \<open>from_walk\<close> exhausts the generator into a list.
\<close>

type_synonym 'a gen = "'a list \<times> error option"

definition from_walk :: "pyval gen \<Rightarrow> path \<Rightarrow> error + TreeList" where
  "from_walk walk r =
     (case snd walk of Some e \<Rightarrow> Inl e | None \<Rightarrow> Inr \<lparr>root_tl = r, paths = fst walk\<rparr>)"

text \<open>
  The three views are \<open>filter\<close> objects: the lambda is applied to an element when the
  iteration reaches it. \<open>reversed\<close> needs a sequence, and a \<open>filter\<close> object is not one.
\<close>

datatype view = Directories | Files | Unknowns

datatype iterable = FilterObject view "pyval list" | ListObject "pyval list"

definition directories :: "TreeList \<Rightarrow> iterable" where
  "directories t = FilterObject Directories (paths t)"

definition files :: "TreeList \<Rightarrow> iterable" where
  "files t = FilterObject Files (paths t)"

definition unknowns :: "TreeList \<Rightarrow> iterable" where
  "unknowns t = FilterObject Unknowns (paths t)"

fun view_lambda :: "'s system \<Rightarrow> 's \<Rightarrow> view \<Rightarrow> pyval \<Rightarrow> error + bool" where
  "view_lambda S s Directories p = call_is_dir S s p"
| "view_lambda S s Files p = call_is_file S s p"
| "view_lambda S s Unknowns p =
     (case getattr_method p ''is_dir'' of
        Inl e \<Rightarrow> Inl e
      | Inr m \<Rightarrow>
          (if truth_value m then Inr (\<not> True)
           else (case call_is_file S s p of Inl e \<Rightarrow> Inl e | Inr b \<Rightarrow> Inr (\<not> b))))"

fun reversed :: "iterable \<Rightarrow> error + pyval list" where
  "reversed (FilterObject v xs) = Inl TypeError"
| "reversed (ListObject xs) = Inr (rev xs)"

fun filter_result :: "('a \<Rightarrow> error + bool) \<Rightarrow> 'a list \<Rightarrow> error + 'a list" where
  "filter_result f [] = Inr []"
| "filter_result f (x # xs) =
     (case f x of
        Inl e \<Rightarrow> Inl e
      | Inr b \<Rightarrow>
          (case filter_result f xs of
             Inl e \<Rightarrow> Inl e
           | Inr ys \<Rightarrow> Inr (if b then x # ys else ys)))"

text \<open>\<open>list(it)\<close>: the elements an iterable yields when nothing changes the state meanwhile.\<close>

fun list_of :: "'s system \<Rightarrow> 's \<Rightarrow> iterable \<Rightarrow> error + pyval list" where
  "list_of S s (FilterObject v xs) = filter_result (view_lambda S s v) xs"
| "list_of S s (ListObject xs) = Inr xs"

text \<open>
  \<open>for x in it: body(x)\<close>, with the body acting on the state: the lambda of a \<open>filter\<close>
  object sees the state the earlier iterations left.
\<close>

fun for_list :: "('s \<Rightarrow> pyval \<Rightarrow> (unit, 's) res) \<Rightarrow> pyval list \<Rightarrow> 's \<Rightarrow> (unit, 's) res" where
  "for_list body [] s = (Inr (), s)"
| "for_list body (x # xs) s =
     (case body s x of (Inl e, s') \<Rightarrow> (Inl e, s') | (Inr _, s') \<Rightarrow> for_list body xs s')"

fun for_filter ::
  "('s \<Rightarrow> pyval \<Rightarrow> error + bool) \<Rightarrow> ('s \<Rightarrow> pyval \<Rightarrow> (unit, 's) res) \<Rightarrow> pyval list \<Rightarrow> 's \<Rightarrow>
   (unit, 's) res" where
  "for_filter f body [] s = (Inr (), s)"
| "for_filter f body (x # xs) s =
     (case f s x of
        Inl e \<Rightarrow> (Inl e, s)
      | Inr b \<Rightarrow>
          (if b then
             (case body s x of
                (Inl e, s') \<Rightarrow> (Inl e, s')
              | (Inr _, s') \<Rightarrow> for_filter f body xs s')
           else for_filter f body xs s))"

fun for_each ::
  "'s system \<Rightarrow> ('s \<Rightarrow> pyval \<Rightarrow> (unit, 's) res) \<Rightarrow> iterable \<Rightarrow> 's \<Rightarrow> (unit, 's) res" where
  "for_each S body (FilterObject v xs) s = for_filter (\<lambda>s'. view_lambda S s' v) body xs s"
| "for_each S body (ListObject xs) s = for_list body xs s"

definition u_key :: "'s system \<Rightarrow> 's \<Rightarrow> TreeList \<Rightarrow> pyval \<Rightarrow> error + string \<times> int" where
  "u_key S s t p =
     (case call_stat S s p of
        Inl e \<Rightarrow> Inl e
      | Inr st \<Rightarrow>
          (case call_relative_to p (root_tl t) of
             Inl e \<Rightarrow> Inl e
           | Inr q \<Rightarrow>
               (case call_as_posix q of
                  Inl e \<Rightarrow> Inl e
                | Inr r \<Rightarrow> Inr (r, py_int (st_mtime st)))))"

definition u_rel :: "TreeList \<Rightarrow> pyval \<Rightarrow> error + string" where
  "u_rel t p =
     (case call_relative_to p (root_tl t) of Inl e \<Rightarrow> Inl e | Inr q \<Rightarrow> call_as_posix q)"

text \<open>
  \<open>diff\<close> and \<open>mod\<close> build the set of the other snapshot's keys and then \<open>map\<close> the
  membership test over their own sequence.
\<close>

definition diff :: "TreeList \<Rightarrow> TreeList \<Rightarrow> error + TreeList" where
  "diff t other =
     (case map_result (u_rel other) (paths other) of
        Inl e \<Rightarrow> Inl e
      | Inr ks \<Rightarrow>
          (case map_result
                  (\<lambda>p. case u_rel t p of Inl e \<Rightarrow> Inl e | Inr r \<Rightarrow> Inr (PyBool (r \<notin> set ks)))
                  (paths t) of
             Inl e \<Rightarrow> Inl e
           | Inr bs \<Rightarrow> Inr \<lparr>root_tl = root_tl t, paths = bs\<rparr>))"

definition mod_tl :: "'s system \<Rightarrow> 's \<Rightarrow> TreeList \<Rightarrow> TreeList \<Rightarrow> error + TreeList" where
  "mod_tl S s t other =
     (case map_result (u_key S s other) (paths other) of
        Inl e \<Rightarrow> Inl e
      | Inr ks \<Rightarrow>
          (case map_result
                  (\<lambda>p. case u_key S s t p of Inl e \<Rightarrow> Inl e | Inr k \<Rightarrow> Inr (PyBool (k \<notin> set ks)))
                  (paths t) of
             Inl e \<Rightarrow> Inl e
           | Inr bs \<Rightarrow> Inr \<lparr>root_tl = root_tl t, paths = bs\<rparr>))"

section \<open>server.py: the synchronization engine\<close>

text \<open>
  \<open>self\<close> is the reference a handle keeps as its accessor. Progress callbacks and log
  lines are left out; an argument with a default is an option, \<open>None\<close> when the caller
  omits it.

  \<open>_walk\<close> is a generator that descends as deep as the listings go, so the model takes
  fuel: one unit for each level of directories, and \<open>None\<close> when it runs out.
\<close>

fun u_walk :: "nat \<Rightarrow> 's system \<Rightarrow> 's \<Rightarrow> accessor \<Rightarrow> string \<Rightarrow> bool \<Rightarrow> pyval gen option"
  and walk_entries ::
    "nat \<Rightarrow> 's system \<Rightarrow> 's \<Rightarrow> accessor \<Rightarrow> string \<Rightarrow> bool \<Rightarrow> stat_result list \<Rightarrow>
     pyval gen option" where
  "u_walk 0 S s self p recurse = None"
| "u_walk (Suc n) S s self p recurse =
     (case sftp_listdir_attr S s p of
        Inl e \<Rightarrow> Some ([], Some e)
      | Inr attrs \<Rightarrow> walk_entries n S s self p recurse attrs)"
| "walk_entries n S s self p recurse [] = Some ([], None)"
| "walk_entries n S s self p recurse (attr # attrs) =
     (case from_attr p (Some self) attr of
        Inl e \<Rightarrow> Some ([], Some e)
      | Inr node \<Rightarrow>
          (if recurse then
             (case is_dir S s node of
                (Inl e, node') \<Rightarrow> Some ([RemotePath node'], Some e)
              | (Inr b, node') \<Rightarrow>
                  (if b then
                     (case u_walk n S s self (fspath node') recurse of
                        None \<Rightarrow> None
                      | Some (ys, Some e) \<Rightarrow> Some (RemotePath node' # ys, Some e)
                      | Some (ys, None) \<Rightarrow>
                          (case walk_entries n S s self p recurse attrs of
                             None \<Rightarrow> None
                           | Some (zs, err) \<Rightarrow> Some (RemotePath node' # ys @ zs, err)))
                   else
                     (case walk_entries n S s self p recurse attrs of
                        None \<Rightarrow> None
                      | Some (zs, err) \<Rightarrow> Some (RemotePath node' # zs, err))))
           else
             (case walk_entries n S s self p recurse attrs of
                None \<Rightarrow> None
              | Some (zs, err) \<Rightarrow> Some (RemotePath node # zs, err))))"

definition u_remote_tree ::
  "nat \<Rightarrow> 's system \<Rightarrow> 's \<Rightarrow> accessor \<Rightarrow> string \<Rightarrow> (error + TreeList) option" where
  "u_remote_tree n S s self p =
     (case u_walk n S s self p True of None \<Rightarrow> None | Some g \<Rightarrow> Some (from_walk g (Path p)))"

definition u_local_tree :: "'s system \<Rightarrow> 's \<Rightarrow> path \<Rightarrow> error + TreeList" where
  "u_local_tree S s p = from_walk (map LocalPath (os_rglob S s p), None) p"

definition u_copy_remote_time :: "'s system \<Rightarrow> 's \<Rightarrow> string \<Rightarrow> string \<Rightarrow> (unit, 's) res" where
  "u_copy_remote_time S s localpath remotepath =
     (case sftp_stat S s remotepath of
        Inl e \<Rightarrow> (Inl e, s)
      | Inr st \<Rightarrow> write_res s (os_utime S s localpath (st_atime st, st_mtime st)))"

definition u_copy_local_time :: "'s system \<Rightarrow> 's \<Rightarrow> string \<Rightarrow> string \<Rightarrow> (unit, 's) res" where
  "u_copy_local_time S s localpath remotepath =
     (case os_stat S s localpath of
        Inl e \<Rightarrow> (Inl e, s)
      | Inr st \<Rightarrow> write_res s (sftp_utime S s remotepath (st_atime st, st_mtime st)))"

definition SFTPHandler_Path :: "accessor \<Rightarrow> string \<Rightarrow> WebPath" where
  "SFTPHandler_Path self remotepath =
     \<lparr>u_path = Path remotepath, u_accessor = Some self, u_stat = None\<rparr>"

definition isdir :: "'s system \<Rightarrow> 's \<Rightarrow> accessor \<Rightarrow> string \<Rightarrow> error + bool" where
  "isdir S s self remotepath =
     (case fst (is_dir S s (SFTPHandler_Path self remotepath)) of
        Inl e \<Rightarrow> (if is_OSError e then Inr False else Inl e)
      | Inr b \<Rightarrow> Inr b)"

definition put ::
  "'s system \<Rightarrow> 's \<Rightarrow> string \<Rightarrow> string \<Rightarrow> bool \<Rightarrow> bool \<Rightarrow> (stat_result, 's) res" where
  "put S s localpath remotepath confirm preserve_mtime =
     (case sftp_put S s localpath remotepath confirm of
        Inl e \<Rightarrow> (Inl e, s)
      | Inr (sftpattrs, s1) \<Rightarrow>
          (if preserve_mtime then
             (case u_copy_local_time S s1 localpath remotepath of
                (Inl e, s2) \<Rightarrow> (Inl e, s2)
              | (Inr _, s2) \<Rightarrow>
                  (case sftp_stat S s2 remotepath of
                     Inl e \<Rightarrow> (Inl e, s2)
                   | Inr sftpattrs' \<Rightarrow> (Inr sftpattrs', s2)))
           else (Inr sftpattrs, s1)))"

text \<open>
  \<open>remotepath / x\<close>, and the file-system string of an element that is handed to \<open>os\<close>
  or to the local side of \<open>put\<close>, by what the element is.
\<close>

fun join_remote :: "path \<Rightarrow> pyval \<Rightarrow> error + path" where
  "join_remote r (LocalPath q) = Inr (truediv r q)"
| "join_remote r (RemotePath w) = Inr (truediv r (u_path w))"
| "join_remote r (PyBool b) = Inl TypeError"

fun os_fspath :: "pyval \<Rightarrow> error + string" where
  "os_fspath (LocalPath p) = Inr (as_posix p)"
| "os_fspath (RemotePath w) = Inr (fspath w)"
| "os_fspath (PyBool b) = Inl TypeError"

definition remote_name :: "TreeList \<Rightarrow> path \<Rightarrow> pyval \<Rightarrow> error + string" where
  "remote_name t remotepath l =
     (case call_relative_to l (root_tl t) of
        Inl e \<Rightarrow> Inl e
      | Inr q \<Rightarrow> (case join_remote remotepath q of Inl e \<Rightarrow> Inl e | Inr r \<Rightarrow> Inr (as_posix r)))"

definition put_tree_directory ::
  "'s system \<Rightarrow> accessor \<Rightarrow> TreeList \<Rightarrow> path \<Rightarrow> bool \<Rightarrow> 's \<Rightarrow> pyval \<Rightarrow> (unit, 's) res" where
  "put_tree_directory S self t remotepath preserve_mtime s ld =
     (case remote_name t remotepath ld of
        Inl e \<Rightarrow> (Inl e, s)
      | Inr rd \<Rightarrow>
          (if rd = ''.'' then (Inr (), s)
           else
             (case isdir S s self rd of
                Inl e \<Rightarrow> (Inl e, s)
              | Inr b \<Rightarrow>
                  (case (if \<not> b then write_res s (sftp_mkdir S s rd) else (Inr (), s)) of
                     (Inl e, s1) \<Rightarrow> (Inl e, s1)
                   | (Inr _, s1) \<Rightarrow>
                       (if preserve_mtime then
                          (case os_fspath ld of
                             Inl e \<Rightarrow> (Inl e, s1)
                           | Inr l \<Rightarrow> u_copy_remote_time S s1 l rd)
                        else (Inr (), s1))))))"

definition put_tree_file ::
  "'s system \<Rightarrow> TreeList \<Rightarrow> path \<Rightarrow> bool \<Rightarrow> bool \<Rightarrow> 's \<Rightarrow> pyval \<Rightarrow> (unit, 's) res" where
  "put_tree_file S t remotepath confirm preserve_mtime s lf =
     (case remote_name t remotepath lf of
        Inl e \<Rightarrow> (Inl e, s)
      | Inr rf \<Rightarrow>
          (case os_fspath lf of
             Inl e \<Rightarrow> (Inl e, s)
           | Inr l \<Rightarrow>
               (case put S s l rf confirm preserve_mtime of
                  (Inl e, s1) \<Rightarrow> (Inl e, s1)
                | (Inr _, s1) \<Rightarrow> (Inr (), s1))))"

definition u_put_tree ::
  "'s system \<Rightarrow> 's \<Rightarrow> accessor \<Rightarrow> TreeList \<Rightarrow> path \<Rightarrow> bool \<Rightarrow> bool \<Rightarrow> (unit, 's) res" where
  "u_put_tree S s self t remotepath confirm preserve_mtime =
     (case for_each S (put_tree_directory S self t remotepath preserve_mtime) (directories t) s of
        (Inl e, s1) \<Rightarrow> (Inl e, s1)
      | (Inr _, s1) \<Rightarrow>
          for_each S (put_tree_file S t remotepath confirm preserve_mtime) (files t) s1)"

definition put_r ::
  "'s system \<Rightarrow> 's \<Rightarrow> accessor \<Rightarrow> string \<Rightarrow> string \<Rightarrow> bool option \<Rightarrow> bool option \<Rightarrow>
   (unit, 's) res" where
  "put_r S s self localpath remotepath confirm preserve_mtime =
     (case u_local_tree S s (Path localpath) of
        Inl e \<Rightarrow> (Inl e, s)
      | Inr t \<Rightarrow>
          u_put_tree S s self t (Path remotepath)
            (case confirm of None \<Rightarrow> True | Some c \<Rightarrow> c)
            (case preserve_mtime of None \<Rightarrow> False | Some b \<Rightarrow> b))"

definition put_diff ::
  "nat \<Rightarrow> 's system \<Rightarrow> 's \<Rightarrow> accessor \<Rightarrow> string \<Rightarrow> string \<Rightarrow> bool option \<Rightarrow> bool option \<Rightarrow>
   (unit, 's) res option" where
  "put_diff n S s self localpath remotepath confirm preserve_mtime =
     (case u_remote_tree n S s self remotepath of
        None \<Rightarrow> None
      | Some (Inl e) \<Rightarrow> Some (Inl e, s)
      | Some (Inr rem_tree) \<Rightarrow>
          (case u_local_tree S s (Path localpath) of
             Inl e \<Rightarrow> Some (Inl e, s)
           | Inr loc_tree \<Rightarrow>
               (case mod_tl S s loc_tree rem_tree of
                  Inl e \<Rightarrow> Some (Inl e, s)
                | Inr t \<Rightarrow>
                    Some (u_put_tree S s self t (Path remotepath)
                            (case confirm of None \<Rightarrow> True | Some c \<Rightarrow> c)
                            (case preserve_mtime of None \<Rightarrow> True | Some b \<Rightarrow> b)))))"

text \<open>
  \<open>_rm_tree\<close> hands the elements of the snapshot themselves to \<open>remove\<close> and \<open>rmdir\<close>.
  paramiko takes a path as \<open>str\<close> or \<open>bytes\<close> and raises \<open>TypeError\<close> for any other
  object, before it sends a request.
\<close>

fun paramiko_path :: "pyval \<Rightarrow> error + string" where
  "paramiko_path (LocalPath p) = Inl TypeError"
| "paramiko_path (RemotePath w) = Inl TypeError"
| "paramiko_path (PyBool b) = Inl TypeError"

definition rm_tree_file :: "'s system \<Rightarrow> 's \<Rightarrow> pyval \<Rightarrow> (unit, 's) res" where
  "rm_tree_file S s rf =
     (case paramiko_path rf of
        Inl e \<Rightarrow> (Inl e, s)
      | Inr r \<Rightarrow> write_res s (sftp_remove S s r))"

definition rm_tree_directory :: "'s system \<Rightarrow> 's \<Rightarrow> pyval \<Rightarrow> (unit, 's) res" where
  "rm_tree_directory S s rd =
     (case paramiko_path rd of
        Inl e \<Rightarrow> (Inl e, s)
      | Inr r \<Rightarrow> write_res s (sftp_rmdir S s r))"

definition u_rm_tree :: "'s system \<Rightarrow> 's \<Rightarrow> TreeList \<Rightarrow> (unit, 's) res" where
  "u_rm_tree S s t =
     (case for_each S (rm_tree_file S) (files t) s of
        (Inl e, s1) \<Rightarrow> (Inl e, s1)
      | (Inr _, s1) \<Rightarrow>
          (case reversed (directories t) of
             Inl e \<Rightarrow> (Inl e, s1)
           | Inr ds \<Rightarrow> for_list (rm_tree_directory S) ds s1))"

definition rm_r ::
  "nat \<Rightarrow> 's system \<Rightarrow> 's \<Rightarrow> accessor \<Rightarrow> string \<Rightarrow> bool option \<Rightarrow> (unit, 's) res option" where
  "rm_r n S s self remotepath remove_root =
     (case u_remote_tree n S s self remotepath of
        None \<Rightarrow> None
      | Some (Inl e) \<Rightarrow> Some (Inl e, s)
      | Some (Inr t) \<Rightarrow>
          (case u_rm_tree S s t of
             (Inl e, s1) \<Rightarrow> Some (Inl e, s1)
           | (Inr _, s1) \<Rightarrow>
               (if (case remove_root of None \<Rightarrow> False | Some b \<Rightarrow> b)
                then Some (write_res s1 (sftp_rmdir S s1 remotepath))
                else Some (Inr (), s1))))"

section \<open>A simulated transport and local file system\<close>

text \<open>
  One instance of the collaborators, for running the model on concrete inputs: two
  tables of nodes in listing order, the contents of the remote files, the files that
  are open, a clock that stamps what is created, and the log of the calls that write.
  Listing a path that is not there raises, and a remote directory that still has
  entries cannot be removed. A file is read whole, from its start.
\<close>

datatype event =
    Mkdir string | Rmdir string | Remove string | Utime string real real
  | OsUtime string real real | Put string string

record sim =
  remote_nodes :: "(path \<times> stat_result) list"
  local_nodes :: "(path \<times> stat_result) list"
  remote_data :: "(path \<times> bytes) list"
  open_files :: "path list"
  clock :: real
  calls :: "event list"

definition node :: "string \<Rightarrow> nat \<Rightarrow> real \<Rightarrow> real \<Rightarrow> stat_result" where
  "node n m a t = \<lparr>filename = n, st_mode = m, st_size = 0, st_atime = a, st_mtime = t\<rparr>"

definition lookup_node :: "(path \<times> stat_result) list \<Rightarrow> string \<Rightarrow> error + stat_result" where
  "lookup_node ns p =
     (case map_of ns (Path p) of None \<Rightarrow> Inl FileNotFoundError | Some a \<Rightarrow> Inr a)"

definition children :: "(path \<times> stat_result) list \<Rightarrow> path \<Rightarrow> stat_result list" where
  "children ns p = map snd (filter (\<lambda>(k, a). k \<noteq> [] \<and> butlast k = p) ns)"

definition set_times ::
  "(path \<times> stat_result) list \<Rightarrow> path \<Rightarrow> real \<times> real \<Rightarrow> (path \<times> stat_result) list" where
  "set_times ns p t =
     map (\<lambda>(k, a). if k = p then (k, a\<lparr>st_atime := fst t, st_mtime := snd t\<rparr>) else (k, a)) ns"

definition sim_listdir_attr :: "sim \<Rightarrow> string \<Rightarrow> error + stat_result list" where
  "sim_listdir_attr s p =
     (case map_of (remote_nodes s) (Path p) of
        None \<Rightarrow> Inl FileNotFoundError
      | Some a \<Rightarrow>
          (if S_ISDIR (st_mode a) then Inr (children (remote_nodes s) (Path p))
           else Inl NotADirectoryError))"

definition sim_mkdir :: "sim \<Rightarrow> string \<Rightarrow> error + sim" where
  "sim_mkdir s p =
     (if Path p = [] \<or> map_of (remote_nodes s) (Path p) \<noteq> None then Inl (OSError EEXIST)
      else
        Inr (s\<lparr>remote_nodes :=
                 remote_nodes s @ [(Path p, node (last (Path p)) 16877 (clock s) (clock s))],
               calls := calls s @ [Mkdir p]\<rparr>))"

definition sim_rmdir :: "sim \<Rightarrow> string \<Rightarrow> error + sim" where
  "sim_rmdir s p =
     (case map_of (remote_nodes s) (Path p) of
        None \<Rightarrow> Inl FileNotFoundError
      | Some a \<Rightarrow>
          (if \<not> S_ISDIR (st_mode a) then Inl NotADirectoryError
           else if children (remote_nodes s) (Path p) \<noteq> [] then Inl (OSError ENOTEMPTY)
           else
             Inr (s\<lparr>remote_nodes := filter (\<lambda>(k, a). k \<noteq> Path p) (remote_nodes s),
                    calls := calls s @ [Rmdir p]\<rparr>)))"

definition sim_remove :: "sim \<Rightarrow> string \<Rightarrow> error + sim" where
  "sim_remove s p =
     (case map_of (remote_nodes s) (Path p) of
        None \<Rightarrow> Inl FileNotFoundError
      | Some a \<Rightarrow>
          (if S_ISDIR (st_mode a) then Inl (OSError EISDIR)
           else
             Inr (s\<lparr>remote_nodes := filter (\<lambda>(k, a). k \<noteq> Path p) (remote_nodes s),
                    calls := calls s @ [Remove p]\<rparr>)))"

definition sim_utime :: "sim \<Rightarrow> string \<Rightarrow> real \<times> real \<Rightarrow> error + sim" where
  "sim_utime s p t =
     (case map_of (remote_nodes s) (Path p) of
        None \<Rightarrow> Inl FileNotFoundError
      | Some a \<Rightarrow>
          Inr (s\<lparr>remote_nodes := set_times (remote_nodes s) (Path p) t,
                 calls := calls s @ [Utime p (fst t) (snd t)]\<rparr>))"

definition sim_os_utime :: "sim \<Rightarrow> string \<Rightarrow> real \<times> real \<Rightarrow> error + sim" where
  "sim_os_utime s p t =
     (case map_of (local_nodes s) (Path p) of
        None \<Rightarrow> Inl FileNotFoundError
      | Some a \<Rightarrow>
          Inr (s\<lparr>local_nodes := set_times (local_nodes s) (Path p) t,
                 calls := calls s @ [OsUtime p (fst t) (snd t)]\<rparr>))"

definition sim_put :: "sim \<Rightarrow> string \<Rightarrow> string \<Rightarrow> bool \<Rightarrow> error + stat_result \<times> sim" where
  "sim_put s l r confirm =
     (case map_of (local_nodes s) (Path l) of
        None \<Rightarrow> Inl FileNotFoundError
      | Some a \<Rightarrow>
          (if Path r = [] then Inl (OSError EISDIR)
           else
             (let attrs = (node (last (Path r)) 33188 (clock s) (clock s))
                            \<lparr>st_size := st_size a\<rparr>
              in Inr (attrs,
                      s\<lparr>remote_nodes :=
                          filter (\<lambda>(k, a). k \<noteq> Path r) (remote_nodes s) @ [(Path r, attrs)],
                        calls := calls s @ [Put l r]\<rparr>))))"

definition contents :: "sim \<Rightarrow> path \<Rightarrow> bytes" where
  "contents s p = (case map_of (remote_data s) p of None \<Rightarrow> [] | Some b \<Rightarrow> b)"

definition sim_open :: "sim \<Rightarrow> string \<Rightarrow> string \<Rightarrow> error + SFTPFile \<times> sim" where
  "sim_open s f mode =
     (let fl = (if CHR ''b'' \<in> set mode then FLAG_BINARY else 0);
          h = \<lparr>u_flags = fl, u_handle = length (open_files s)\<rparr>;
          s1 = s\<lparr>open_files := open_files s @ [Path f]\<rparr>
      in
      if CHR ''w'' \<in> set mode then
        Inr (h, s1\<lparr>remote_data := (Path f, []) # remote_data s\<rparr>)
      else if map_of (remote_data s) (Path f) = None then Inl FileNotFoundError
      else Inr (h, s1))"

definition sim_file_read :: "sim \<Rightarrow> SFTPFile \<Rightarrow> nat option \<Rightarrow> error + bytes \<times> sim" where
  "sim_file_read s h sz =
     (if u_handle h < length (open_files s) then
        (let b = contents s (open_files s ! u_handle h)
         in Inr (case sz of None \<Rightarrow> b | Some n \<Rightarrow> take n b, s))
      else Inl (OSError EBADF))"

text \<open>
  UTF-8, as the one codec of the simulated system; a surrogate has no encoding, and
  an overlong or truncated sequence no decoding.
\<close>

fun utf8_char :: "nat \<Rightarrow> error + bytes" where
  "utf8_char c =
     (if c < 128 then Inr [of_nat c]
      else if c < 2048 then Inr [of_nat (192 + c div 64), of_nat (128 + c mod 64)]
      else if c < 65536 then
        (if 55296 \<le> c \<and> c < 57344 then Inl UnicodeError
         else Inr [of_nat (224 + c div 4096), of_nat (128 + c div 64 mod 64),
                   of_nat (128 + c mod 64)])
      else if c < 1114112 then
        Inr [of_nat (240 + c div 262144), of_nat (128 + c div 4096 mod 64),
             of_nat (128 + c div 64 mod 64), of_nat (128 + c mod 64)]
      else Inl UnicodeError)"

fun utf8_encode :: "pystr \<Rightarrow> error + bytes" where
  "utf8_encode [] = Inr []"
| "utf8_encode (c # cs) =
     (case utf8_char c of
        Inl e \<Rightarrow> Inl e
      | Inr b \<Rightarrow> (case utf8_encode cs of Inl e \<Rightarrow> Inl e | Inr bs \<Rightarrow> Inr (b @ bs)))"

definition sim_encode :: "string \<Rightarrow> pystr \<Rightarrow> error + bytes" where
  "sim_encode n t = (if n = ''utf-8'' then utf8_encode t else Inl LookupError)"

definition continuation :: "8 word \<Rightarrow> bool" where
  "continuation b = (128 \<le> unat b \<and> unat b < 192)"

definition cons_result :: "nat \<Rightarrow> error + pystr \<Rightarrow> error + pystr" where
  "cons_result c r = (case r of Inl e \<Rightarrow> Inl e | Inr cs \<Rightarrow> Inr (c # cs))"

fun utf8_decode :: "bytes \<Rightarrow> error + pystr" where
  "utf8_decode [] = Inr []"
| "utf8_decode (b # bs) =
     (let n = unat b in
      if n < 128 then cons_result n (utf8_decode bs)
      else if n < 194 then Inl UnicodeError
      else
        (case bs of
           [] \<Rightarrow> Inl UnicodeError
         | b1 # r1 \<Rightarrow>
             if \<not> continuation b1 then Inl UnicodeError
             else if n < 224 then
               cons_result ((n - 192) * 64 + (unat b1 - 128)) (utf8_decode r1)
             else
               (case r1 of
                  [] \<Rightarrow> Inl UnicodeError
                | b2 # r2 \<Rightarrow>
                    if \<not> continuation b2 then Inl UnicodeError
                    else if n < 240 then
                      (let c = (n - 224) * 4096 + (unat b1 - 128) * 64 + (unat b2 - 128) in
                       if c < 2048 \<or> (55296 \<le> c \<and> c < 57344) then Inl UnicodeError
                       else cons_result c (utf8_decode r2))
                    else
                      (case r2 of
                         [] \<Rightarrow> Inl UnicodeError
                       | b3 # r3 \<Rightarrow>
                           if \<not> continuation b3 \<or> 245 \<le> n then Inl UnicodeError
                           else
                             (let c = (n - 240) * 262144 + (unat b1 - 128) * 4096 +
                                      (unat b2 - 128) * 64 + (unat b3 - 128)
                              in
                              if c < 65536 \<or> 1114112 \<le> c then Inl UnicodeError
                              else cons_result c (utf8_decode r3))))))"

definition sim_decode :: "string \<Rightarrow> bytes \<Rightarrow> error + pystr" where
  "sim_decode n b = (if n = ''utf-8'' then utf8_decode b else Inl LookupError)"

definition sim_file_write :: "sim \<Rightarrow> SFTPFile \<Rightarrow> data \<Rightarrow> error + sim" where
  "sim_file_write s h d =
     (if u_handle h < length (open_files s) then
        (let f = open_files s ! u_handle h in
         case (case d of Bytes b \<Rightarrow> Inr b | Str t \<Rightarrow> utf8_encode t) of
           Inl e \<Rightarrow> Inl e
         | Inr b \<Rightarrow> Inr (s\<lparr>remote_data := (f, contents s f @ b) # remote_data s\<rparr>))
      else Inl (OSError EBADF))"

definition sim_request :: "sim \<Rightarrow> request \<Rightarrow> error + (nat \<times> bytes) \<times> sim" where
  "sim_request s r =
     (case r of
        CMD_OPEN f flags \<Rightarrow>
          Inr ((CMD_HANDLE, [of_nat (length (open_files s))]),
               s\<lparr>open_files := open_files s @ [Path f]\<rparr>)
      | CMD_CLOSE h \<Rightarrow> Inr ((101, []), s))"

definition sim_rglob :: "sim \<Rightarrow> path \<Rightarrow> path list" where
  "sim_rglob s p =
     map fst (filter (\<lambda>(k, a). length p < length k \<and> take (length p) k = p) (local_nodes s))"

definition sim_system :: "sim system" where
  "sim_system =
     \<lparr>sftp_stat = (\<lambda>s. lookup_node (remote_nodes s)),
      sftp_listdir_attr = sim_listdir_attr,
      sftp_mkdir = sim_mkdir, sftp_rmdir = sim_rmdir, sftp_remove = sim_remove,
      sftp_utime = sim_utime, sftp_put = sim_put, sftp_open = sim_open,
      sftp_request = sim_request, file_read = sim_file_read, file_write = sim_file_write,
      os_stat = (\<lambda>s. lookup_node (local_nodes s)), os_utime = sim_os_utime,
      os_rglob = sim_rglob, codec_encode = sim_encode, codec_decode = sim_decode\<rparr>"

section \<open>Example inputs\<close>

text \<open>
  Two local snapshots with the shape of the specification's scenario: under the root
  \<open>l\<close> the entries \<open>a\<close>, \<open>a/x.txt\<close> and \<open>b.txt\<close>; under the root \<open>m\<close> the entries \<open>a\<close>,
  \<open>a/x.txt\<close> and \<open>c.txt\<close>.
\<close>

definition tree_l :: TreeList where
  "tree_l =
     \<lparr>root_tl = [''l''],
      paths = [LocalPath [''l'', ''a''], LocalPath [''l'', ''a'', ''x.txt''],
               LocalPath [''l'', ''b.txt'']]\<rparr>"

definition tree_m :: TreeList where
  "tree_m =
     \<lparr>root_tl = [''m''],
      paths = [LocalPath [''m'', ''a''], LocalPath [''m'', ''a'', ''x.txt''],
               LocalPath [''m'', ''c.txt'']]\<rparr>"

text \<open>
  A state of the simulated system. Locally, under \<open>l\<close> and \<open>m\<close>, the nodes of the two
  snapshots above, and under \<open>lp\<close> a directory \<open>sub\<close> with a file \<open>f.txt\<close>. Remotely, under
  \<open>r\<close>, the tree \<open>d\<close>, \<open>d/e\<close>, \<open>d/e/f.txt\<close> of the deletion scenario, under \<open>rp\<close> a
  directory \<open>sub\<close> and a symbolic link \<open>ln\<close>, and an empty directory \<open>re\<close>.
\<close>

definition sim0 :: sim where
  "sim0 =
     \<lparr>remote_nodes =
        [([''r''], node ''r'' 16877 1 1),
         ([''r'', ''d''], node ''d'' 16877 10 10),
         ([''r'', ''d'', ''e''], node ''e'' 16877 20 20),
         ([''r'', ''d'', ''e'', ''f.txt''], node ''f.txt'' 33188 30 30),
         ([''rp''], node ''rp'' 16877 2 2),
         ([''rp'', ''sub''], node ''sub'' 16877 5 6),
         ([''rp'', ''ln''], node ''ln'' 41471 7 7),
         ([''re''], node ''re'' 16877 3 3)],
      local_nodes =
        [([''l''], node ''l'' 16877 1 1),
         ([''l'', ''a''], node ''a'' 16877 500 500),
         ([''l'', ''a'', ''x.txt''], node ''x.txt'' 33188 (2001 / 2) (2001 / 2)),
         ([''l'', ''b.txt''], node ''b.txt'' 33188 2000 2000),
         ([''m''], node ''m'' 16877 1 1),
         ([''m'', ''a''], node ''a'' 16877 500 500),
         ([''m'', ''a'', ''x.txt''], node ''x.txt'' 33188 1000 1000),
         ([''m'', ''c.txt''], node ''c.txt'' 33188 3000 3000),
         ([''lp''], node ''lp'' 16877 1 1),
         ([''lp'', ''sub''], node ''sub'' 16877 111 222),
         ([''lp'', ''sub'', ''f.txt''], node ''f.txt'' 33188 333 444)],
      remote_data = [], open_files = [], clock = 9000, calls = []\<rparr>"

text \<open>
  The snapshot that a walk of \<open>r\<close> is meant to capture: one handle for each node, with
  the listing's attributes cached.
\<close>

definition handle :: "path \<Rightarrow> nat \<Rightarrow> real \<Rightarrow> pyval" where
  "handle p m t =
     RemotePath \<lparr>u_path = p, u_accessor = Some 0, u_stat = Some (node (last p) m t t)\<rparr>"

definition tree_r :: TreeList where
  "tree_r =
     \<lparr>root_tl = [''r''],
      paths = [handle [''r'', ''d''] 16877 10, handle [''r'', ''d'', ''e''] 16877 20,
               handle [''r'', ''d'', ''e'', ''f.txt''] 33188 30]\<rparr>"

text \<open>The part of that snapshot without the file: the two directories.\<close>

definition tree_d :: TreeList where
  "tree_d =
     \<lparr>root_tl = [''r''],
      paths = [handle [''r'', ''d''] 16877 10, handle [''r'', ''d'', ''e''] 16877 20]\<rparr>"

text \<open>A transport whose \<open>stat\<close> is refused for every path.\<close>

definition denied_system :: "sim system" where
  "denied_system = sim_system\<lparr>sftp_stat := (\<lambda>s p. Inl PermissionError)\<rparr>"

text \<open>The snapshot of \<open>rp\<close>: a directory and a symbolic link.\<close>

definition tree_rp :: TreeList where
  "tree_rp =
     \<lparr>root_tl = [''rp''],
      paths = [handle [''rp'', ''sub''] 16877 5, handle [''rp'', ''ln''] 41471 7]\<rparr>"

text \<open>The elements a walk puts into a snapshot are path handles.\<close>

fun is_path_handle :: "pyval \<Rightarrow> bool" where
  "is_path_handle (LocalPath p) = True"
| "is_path_handle (RemotePath w) = True"
| "is_path_handle (PyBool b) = False"

text \<open>
  A text of three code points, \<open>h\<close>, \<open>e\<close> with acute accent and the euro sign, its
  UTF-8 bytes, and the states of the simulated system when \<open>rp/t.txt\<close> is opened for
  writing, written, and opened again for reading.
\<close>

definition hello :: pystr where
  "hello = [104, 233, 8364]"

definition hello_utf8 :: bytes where
  "hello_utf8 = [104, 195, 169, 226, 130, 172]"

definition text_stream :: FileHandler where
  "text_stream =
     \<lparr>file_handler = \<lparr>u_flags = 0, u_handle = 0\<rparr>, encoding = Some ''utf-8'',
      errors = None, newline = None\<rparr>"

definition binary_stream :: FileHandler where
  "binary_stream =
     \<lparr>file_handler = \<lparr>u_flags = 16, u_handle = 1\<rparr>, encoding = None,
      errors = None, newline = None\<rparr>"

definition sim_opened :: sim where
  "sim_opened =
     sim0\<lparr>open_files := [[''rp'', ''t.txt'']], remote_data := [([''rp'', ''t.txt''], [])]\<rparr>"

definition sim_written :: sim where
  "sim_written =
     sim_opened\<lparr>remote_data := [([''rp'', ''t.txt''], hello_utf8), ([''rp'', ''t.txt''], [])]\<rparr>"

definition sim_reopened :: sim where
  "sim_reopened = sim_written\<lparr>open_files := [[''rp'', ''t.txt''], [''rp'', ''t.txt'']]\<rparr>"

section \<open>Running the simulated system\<close>

lemma sim_sel:
  "sftp_stat sim_system = (\<lambda>s. lookup_node (remote_nodes s))"
  "sftp_listdir_attr sim_system = sim_listdir_attr"
  "sftp_mkdir sim_system = sim_mkdir" "sftp_rmdir sim_system = sim_rmdir"
  "sftp_remove sim_system = sim_remove" "sftp_utime sim_system = sim_utime"
  "sftp_put sim_system = sim_put" "sftp_open sim_system = sim_open"
  "sftp_request sim_system = sim_request" "file_read sim_system = sim_file_read"
  "file_write sim_system = sim_file_write"
  "os_stat sim_system = (\<lambda>s. lookup_node (local_nodes s))"
  "os_utime sim_system = sim_os_utime" "os_rglob sim_system = sim_rglob"
  "codec_encode sim_system = sim_encode" "codec_decode sim_system = sim_decode"
  by (simp_all add: sim_system_def)

lemma paths_eval:
  "Path ''r'' = [''r'']" "Path ''lp'' = [''lp'']" "Path ''rp'' = [''rp'']"
  "Path ''lp/sub'' = [''lp'', ''sub'']" "Path ''rp/sub'' = [''rp'', ''sub'']"
  "Path ''lp/sub/f.txt'' = [''lp'', ''sub'', ''f.txt'']"
  "Path ''rp/sub/f.txt'' = [''rp'', ''sub'', ''f.txt'']"
  "Path ''r/d/e/f.txt'' = [''r'', ''d'', ''e'', ''f.txt'']"
  "Path ''nowhere'' = [''nowhere'']" "Path ''rp/t.txt'' = [''rp'', ''t.txt'']"
  "Path ''re'' = [''re'']" "Path ''re/sub'' = [''re'', ''sub'']"
  "Path ''re/sub/f.txt'' = [''re'', ''sub'', ''f.txt'']"
  by (simp_all add: Path_def anchor_def)

lemma is_file_cached: "call_is_file S s (handle p m t) = Inr (S_ISREG m)"
  by (simp add: handle_def is_file_def u_mode_def stat_def node_def)

lemma is_dir_cached: "call_is_dir S s (handle p m t) = Inr (S_ISDIR m)"
  by (simp add: handle_def is_dir_def u_mode_def stat_def node_def)

lemma handle_fspath: "os_fspath (handle p m t) = Inr (as_posix p)"
  by (simp add: handle_def fspath_def)

lemma handle_is_path_handle: "is_path_handle (handle p m t)"
  by (simp add: handle_def)

section \<open>Properties of the tree snapshot\<close>

lemma map_result_length: "map_result f xs = Inr ys \<Longrightarrow> length ys = length xs"
  by (induction xs arbitrary: ys) (auto split: sum.splits)

lemma map_result_set:
  "map_result f xs = Inr ys \<Longrightarrow> y \<in> set ys \<Longrightarrow> \<exists>x \<in> set xs. f x = Inr y"
  by (induction xs arbitrary: ys) (auto split: sum.splits)

text \<open>
  Whatever the two snapshots are, a result of \<open>diff\<close> has one entry for each entry of
  the first snapshot, and every entry is a truth value.
\<close>

lemma diff_paths_are_flags:
  assumes "diff t other = Inr d"
  shows "length (paths d) = length (paths t) \<and> (\<forall>p \<in> set (paths d). \<exists>b. p = PyBool b)"
proof -
  from assms obtain ks bs where
    bs: "map_result (\<lambda>p. case u_rel t p of Inl e \<Rightarrow> Inl e | Inr r \<Rightarrow> Inr (PyBool (r \<notin> set ks)))
           (paths t) = Inr bs"
    and d: "d = \<lparr>root_tl = root_tl t, paths = bs\<rparr>"
    by (auto simp: diff_def split: sum.splits)
  have "length bs = length (paths t)"
    using bs by (rule map_result_length)
  moreover have "\<exists>b. p = PyBool b" if "p \<in> set bs" for p
  proof -
    from map_result_set [OF bs that] obtain x where
      "(case u_rel t x of Inl e \<Rightarrow> Inl e | Inr r \<Rightarrow> Inr (PyBool (r \<notin> set ks))) = Inr p"
      by blast
    then show ?thesis
      by (cases "u_rel t x") auto
  qed
  ultimately show ?thesis
    using d by simp
qed

text \<open>
  C1. \<open>A.diff(B)\<close> should hold the handles of \<open>A\<close> whose relative path is not among those
  of \<open>B\<close>, and \<open>A.diff(A)\<close> should be empty. On the two example snapshots the code
  returns the three membership flags in place of the handle \<open>l/b.txt\<close>, and \<open>A.diff(A)\<close>
  has three entries.
\<close>

theorem diff_returns_flags:
  "diff tree_l tree_m =
     Inr \<lparr>root_tl = [''l''], paths = [PyBool False, PyBool False, PyBool True]\<rparr> \<and>
   diff tree_l tree_l =
     Inr \<lparr>root_tl = [''l''], paths = [PyBool False, PyBool False, PyBool False]\<rparr>"
  by (simp add: diff_def tree_l_def tree_m_def u_rel_def relative_to_def is_anchor_def)

lemma example_keys:
  "u_key sim_system sim0 tree_l (LocalPath [''l'', ''a'']) = Inr (''a'', 500)"
  "u_key sim_system sim0 tree_l (LocalPath [''l'', ''a'', ''x.txt'']) = Inr (''a/x.txt'', 1000)"
  "u_key sim_system sim0 tree_l (LocalPath [''l'', ''b.txt'']) = Inr (''b.txt'', 2000)"
  "u_key sim_system sim0 tree_m (LocalPath [''m'', ''a'']) = Inr (''a'', 500)"
  "u_key sim_system sim0 tree_m (LocalPath [''m'', ''a'', ''x.txt'']) = Inr (''a/x.txt'', 1000)"
  "u_key sim_system sim0 tree_m (LocalPath [''m'', ''c.txt'']) = Inr (''c.txt'', 3000)"
  by (simp_all add: u_key_def tree_l_def tree_m_def sim_sel lookup_node_def Path_def anchor_def
      is_anchor_def sim0_def node_def py_int_def relative_to_def)

text \<open>
  C2. \<open>A.mod(B)\<close> should hold the handles of \<open>A\<close> whose key, the relative path with the
  modification time cut to whole seconds, is not a key of \<open>B\<close>, and \<open>A.mod(A)\<close> should be
  empty. On the example snapshots, with \<open>l/a/x.txt\<close> modified at 1000.5 and \<open>m/a/x.txt\<close>
  at 1000, the keys are compared as the claim says, but the result holds the three
  flags in place of the handle \<open>l/b.txt\<close>, and \<open>A.mod(A)\<close> has three entries.
\<close>

theorem mod_returns_flags:
  "mod_tl sim_system sim0 tree_l tree_m =
     Inr \<lparr>root_tl = [''l''], paths = [PyBool False, PyBool False, PyBool True]\<rparr> \<and>
   mod_tl sim_system sim0 tree_l tree_l =
     Inr \<lparr>root_tl = [''l''], paths = [PyBool False, PyBool False, PyBool False]\<rparr>"
  by (simp add: mod_tl_def example_keys)
    (simp add: tree_l_def tree_m_def example_keys [unfolded tree_l_def tree_m_def])

lemma unknowns_lambda: "is_path_handle p \<Longrightarrow> view_lambda S s Unknowns p = Inr False"
  by (cases p) (simp_all add: lookup_attribute_def WebPath_attributes_def truth_value_def)

lemma filter_result_all_false:
  "\<forall>x \<in> set xs. f x = Inr False \<Longrightarrow> filter_result f xs = Inr []"
  by (induction xs) simp_all

text \<open>
  C10. The \<open>unknowns\<close> view of a captured snapshot yields nothing, whatever its handles
  are: the lambda tests the method \<open>is_dir\<close> itself, which counts as true, and never
  calls \<open>is_file\<close>.
\<close>

theorem unknowns_yields_nothing:
  assumes "list_all is_path_handle (paths t)"
  shows "list_of S s (unknowns t) = Inr []"
proof -
  have "\<forall>p \<in> set (paths t). view_lambda S s Unknowns p = Inr False"
  proof
    fix p
    assume "p \<in> set (paths t)"
    with assms have "is_path_handle p"
      by (simp add: list_all_iff)
    then show "view_lambda S s Unknowns p = Inr False"
      by (rule unknowns_lambda)
  qed
  then show ?thesis
    by (simp add: unknowns_def filter_result_all_false)
qed

text \<open>
  The snapshot of \<open>rp\<close> holds a symbolic link, which is neither a directory nor a
  regular file, and its \<open>unknowns\<close> view is empty.
\<close>

theorem unknowns_yields_nothing_witness:
  "list_all is_path_handle (paths tree_rp) \<and>
   call_is_dir sim_system sim0 (handle [''rp'', ''ln''] 41471 7) = Inr False \<and>
   call_is_file sim_system sim0 (handle [''rp'', ''ln''] 41471 7) = Inr False \<and>
   list_of sim_system sim0 (unknowns tree_rp) = Inr []"
proof -
  have h: "list_all is_path_handle (paths tree_rp)"
    by (simp add: tree_rp_def handle_is_path_handle)
  show ?thesis
    using h unknowns_yields_nothing [OF h, of sim_system sim0]
    by (simp add: is_dir_cached is_file_cached S_ISDIR_def S_ISREG_def S_IFMT_def)
qed

section \<open>Properties of the synchronization engine\<close>

text \<open>
  \<open>from_attr\<close> looks up \<open>Path\<close>, which \<open>webpath.py\<close> does not bind, so it raises for every
  argument, and the walk stops at the first entry of the first listing.
\<close>

lemma from_attr_raises: "from_attr p a st = Inl NameError"
  by (simp add: from_attr_def lookup_name_def webpath_globals_def)

lemma walk_first_entry:
  "sftp_listdir_attr S s p = Inr (a # as) \<Longrightarrow>
   u_walk (Suc n) S s self p r = Some ([], Some NameError)"
  by (simp add: from_attr_raises)

lemma remote_tree_first_entry:
  "sftp_listdir_attr S s p = Inr (a # as) \<Longrightarrow>
   u_remote_tree (Suc n) S s self p = Some (Inl NameError)"
  by (simp add: u_remote_tree_def from_attr_raises from_walk_def)

lemma listing_r: "sftp_listdir_attr sim_system sim0 ''r'' = Inr [node ''d'' 16877 10 10]"
  by (simp add: sim_sel sim_listdir_attr_def paths_eval children_def sim0_def node_def
      S_ISDIR_def S_IFMT_def)

lemma listing_re: "sftp_listdir_attr sim_system sim0 ''re'' = Inr []"
  by (simp add: sim_sel sim_listdir_attr_def paths_eval children_def sim0_def node_def
      S_ISDIR_def S_IFMT_def)

lemma remote_tree_re:
  "u_remote_tree (Suc n) sim_system sim0 0 ''re'' = Some (Inr \<lparr>root_tl = [''re''], paths = []\<rparr>)"
  by (simp add: u_remote_tree_def listing_re from_walk_def paths_eval)

text \<open>
  C5. The walk of a root should yield each node before its descendants and a whole
  subtree before the next sibling. The walk of \<open>r\<close>, which holds \<open>d\<close>, \<open>d/e\<close> and
  \<open>d/e/f.txt\<close>, yields nothing and raises \<open>NameError\<close>.
\<close>

theorem walk_raises_at_first_entry:
  "u_walk 5 sim_system sim0 0 ''r'' True = Some ([], Some NameError)"
  using walk_first_entry [OF listing_r, of 4 0 True] by simp

text \<open>
  \<open>_rm_tree\<close> hands path objects to \<open>remove\<close>, which raises before it sends anything, and
  asks for the reverse of a \<open>filter\<close> object, which raises as well: it raises for every
  snapshot and leaves the transport as it was.
\<close>

lemma rm_tree_file_raises: "rm_tree_file S s rf = (Inl TypeError, s)"
  by (cases rf) (simp_all add: rm_tree_file_def)

lemma for_filter_rm_tree_file:
  "snd (for_filter f (rm_tree_file S) xs s) = s"
  by (induction xs) (simp_all add: rm_tree_file_raises split: sum.splits)

lemma u_rm_tree_raises: "\<exists>e. u_rm_tree S s t = (Inl e, s)"
proof -
  obtain r s1 where loop: "for_each S (rm_tree_file S) (files t) s = (r, s1)"
    by (cases "for_each S (rm_tree_file S) (files t) s")
  have "snd (for_each S (rm_tree_file S) (files t) s) = s"
    by (simp add: files_def for_filter_rm_tree_file)
  with loop have "s1 = s"
    by simp
  with loop show ?thesis
    by (cases r) (simp_all add: u_rm_tree_def directories_def)
qed

lemma files_loop_r:
  "for_each sim_system (rm_tree_file sim_system) (files tree_r) sim0 = (Inl TypeError, sim0)"
  by (simp add: files_def tree_r_def is_file_cached S_ISREG_def S_IFMT_def rm_tree_file_raises)

lemma files_loop_d:
  "for_each sim_system (rm_tree_file sim_system) (files tree_d) sim0 = (Inr (), sim0)"
  by (simp add: files_def tree_d_def is_file_cached S_ISREG_def S_IFMT_def)

lemma reversed_directories: "reversed (directories t) = Inl TypeError"
  by (simp add: directories_def)

lemma rm_tree_r: "u_rm_tree sim_system sim0 tree_r = (Inl TypeError, sim0)"
  by (simp add: u_rm_tree_def files_loop_r)

lemma rm_tree_d: "u_rm_tree sim_system sim0 tree_d = (Inl TypeError, sim0)"
  by (simp add: u_rm_tree_def files_loop_d reversed_directories)

lemma rm_tree_empty: "u_rm_tree S s \<lparr>root_tl = r, paths = []\<rparr> = (Inl TypeError, s)"
  by (simp add: u_rm_tree_def files_def reversed_directories)

text \<open>
  C3. \<open>rm_r\<close> should remove the files, then the directories in reverse walk order, then
  the root if asked: for \<open>d\<close>, \<open>d/e\<close>, \<open>d/e/f.txt\<close> the order \<open>f.txt\<close>, \<open>d/e\<close>, \<open>d\<close>. On the
  remote tree \<open>r\<close> the call raises \<open>NameError\<close> while it captures the snapshot. On the
  snapshot the walk is meant to capture, \<open>_rm_tree\<close> raises \<open>TypeError\<close> at the file. On
  the two directories alone the file loop passes and the reverse of the \<open>filter\<close>
  object raises \<open>TypeError\<close>; so it does on the empty directory \<open>re\<close>, whose root is
  then not removed either. In each case the transport is left as it was.
\<close>

theorem rm_r_removes_nothing:
  "rm_r 5 sim_system sim0 0 ''r'' None = Some (Inl NameError, sim0) \<and>
   u_rm_tree sim_system sim0 tree_r = (Inl TypeError, sim0) \<and>
   for_each sim_system (rm_tree_file sim_system) (files tree_d) sim0 = (Inr (), sim0) \<and>
   reversed (directories tree_d) = Inl TypeError \<and>
   u_rm_tree sim_system sim0 tree_d = (Inl TypeError, sim0) \<and>
   rm_r 5 sim_system sim0 0 ''re'' (Some True) = Some (Inl TypeError, sim0)"
  using remote_tree_first_entry [OF listing_r, of 4 0] remote_tree_re [of 4]
  by (simp add: rm_r_def rm_tree_r rm_tree_d rm_tree_empty files_loop_d reversed_directories)

text \<open>
  With time preservation, \<open>put\<close> sets the remote times from the local file and returns
  the remote metadata fetched after that. For a directory, \<open>_put_tree\<close> calls
  \<open>_copy_remote_time\<close>, which reads the remote times and sets the local ones.
\<close>

lemma put_copies_local_times:
  assumes "sftp_put S s l r c = Inr (a, s1)"
    and "os_stat S s1 l = Inr st"
    and "sftp_utime S s1 r (st_atime st, st_mtime st) = Inr s2"
  shows "put S s l r c True =
           (case sftp_stat S s2 r of Inl e \<Rightarrow> (Inl e, s2) | Inr a' \<Rightarrow> (Inr a', s2))"
  using assms by (simp add: put_def u_copy_local_time_def write_res_def split: sum.splits)

lemma put_tree_directory_copies_remote_times:
  assumes "remote_name t rp ld = Inr rd" and "rd \<noteq> ''.''" and "isdir S s self rd = Inr True"
    and "os_fspath ld = Inr l"
  shows "put_tree_directory S self t rp True s ld =
           (case sftp_stat S s rd of
              Inl e \<Rightarrow> (Inl e, s)
            | Inr st \<Rightarrow> write_res s (os_utime S s l (st_atime st, st_mtime st)))"
  using assms by (simp add: put_tree_directory_def u_copy_remote_time_def)

lemma local_tree_lp:
  "u_local_tree sim_system sim0 [''lp''] =
     Inr \<lparr>root_tl = [''lp''],
          paths = [LocalPath [''lp'', ''sub''], LocalPath [''lp'', ''sub'', ''f.txt'']]\<rparr>"
  by (simp add: u_local_tree_def from_walk_def sim_sel sim_rglob_def sim0_def)

lemmas upload_defs =
  put_tree_directory_def remote_name_def relative_to_def is_anchor_def truediv_def isdir_def
  SFTPHandler_Path_def is_dir_def
  u_mode_def stat_def fspath_def sim_sel lookup_node_def paths_eval sim0_def node_def
  S_ISDIR_def S_ISREG_def S_IFMT_def u_copy_remote_time_def write_res_def sim_os_utime_def
  put_tree_file_def put_def sim_put_def u_copy_local_time_def sim_utime_def set_times_def
  Path_is_dir_def Path_is_file_def directories_def files_def u_put_tree_def Let_def

text \<open>
  C4. With time preservation, the times of every transferred node should flow from the
  local source to the remote destination, for a directory as for a file. In the
  upload of \<open>lp\<close> to \<open>rp\<close> the file's times do; for the directory \<open>sub\<close>, local times
  (111, 222) and remote times (5, 6), the only call is \<open>os.utime\<close> on the local
  directory: afterwards both sides have (5, 6).
\<close>

theorem put_r_directory_times_flow_back:
  "fst (put_r sim_system sim0 0 ''lp'' ''rp'' None (Some True)) = Inr () \<and>
   calls (snd (put_r sim_system sim0 0 ''lp'' ''rp'' None (Some True))) =
     [OsUtime ''lp/sub'' 5 6, Put ''lp/sub/f.txt'' ''rp/sub/f.txt'',
      Utime ''rp/sub/f.txt'' 333 444] \<and>
   map_of (local_nodes (snd (put_r sim_system sim0 0 ''lp'' ''rp'' None (Some True))))
     [''lp'', ''sub''] = Some (node ''sub'' 16877 5 6) \<and>
   map_of (remote_nodes (snd (put_r sim_system sim0 0 ''lp'' ''rp'' None (Some True))))
     [''rp'', ''sub''] = Some (node ''sub'' 16877 5 6)"
  apply (simp add: put_r_def paths_eval local_tree_lp)
  apply (simp add: upload_defs)
  done

text \<open>
  What \<open>put_diff\<close> hands to \<open>_put_tree\<close> is a result of \<open>mod\<close>, a list of flags. On the
  empty list \<open>_put_tree\<close> does nothing; on any other the directory loop raises at once,
  since a truth value has no \<open>is_dir\<close>. In neither case does the outcome depend on
  \<open>confirm\<close> or \<open>preserve_mtime\<close>.
\<close>

lemma mod_paths_are_flags:
  assumes "mod_tl S s t other = Inr d"
  shows "\<forall>p \<in> set (paths d). \<exists>b. p = PyBool b"
proof -
  from assms obtain ks bs where
    bs: "map_result (\<lambda>p. case u_key S s t p of Inl e \<Rightarrow> Inl e | Inr k \<Rightarrow> Inr (PyBool (k \<notin> set ks)))
           (paths t) = Inr bs"
    and d: "d = \<lparr>root_tl = root_tl t, paths = bs\<rparr>"
    by (auto simp: mod_tl_def split: sum.splits)
  have "\<exists>b. p = PyBool b" if "p \<in> set bs" for p
  proof -
    from map_result_set [OF bs that] obtain x where
      "(case u_key S s t x of Inl e \<Rightarrow> Inl e | Inr k \<Rightarrow> Inr (PyBool (k \<notin> set ks))) = Inr p"
      by blast
    then show ?thesis
      by (cases "u_key S s t x") auto
  qed
  then show ?thesis
    using d by simp
qed

lemma put_tree_flags:
  assumes "\<forall>p \<in> set (paths t). \<exists>b. p = PyBool b"
  shows "u_put_tree S s self t rp c pm = (if paths t = [] then Inr () else Inl AttributeError, s)"
proof (cases "paths t")
  case Nil
  then show ?thesis
    by (simp add: u_put_tree_def directories_def files_def)
next
  case (Cons p ps)
  with assms obtain b where "p = PyBool b"
    by auto
  with Cons show ?thesis
    by (simp add: u_put_tree_def directories_def)
qed

lemma put_diff_ignores_options:
  "put_diff n S s self l r c pm = put_diff n S s self l r c' pm'"
proof -
  have "u_put_tree S s self t (Path r) a b = u_put_tree S s self t (Path r) a' b'"
    if "mod_tl S s lt rt = Inr t" for lt rt t a b a' b'
    by (simp add: put_tree_flags [OF mod_paths_are_flags [OF that]])
  then show ?thesis
    by (simp add: put_diff_def split: option.splits sum.splits)
qed

text \<open>The declared defaults, and the procedure both uploads call once they have a snapshot.\<close>

lemma upload_defaults:
  assumes "u_local_tree S s (Path l) = Inr lt"
    and "u_remote_tree n S s self r = Some (Inr rt)"
    and "mod_tl S s lt rt = Inr t"
  shows "put_r S s self l r None None = u_put_tree S s self lt (Path r) True False \<and>
         put_diff n S s self l r None None = Some (u_put_tree S s self t (Path r) True True) \<and>
         put_r S s self l r (Some c) (Some b) = u_put_tree S s self lt (Path r) c b \<and>
         put_diff n S s self l r (Some c) (Some b) = Some (u_put_tree S s self t (Path r) c b)"
  using assms by (simp add: put_r_def put_diff_def)

lemma mod_lp:
  "mod_tl sim_system sim0
     \<lparr>root_tl = [''lp''],
      paths = [LocalPath [''lp'', ''sub''], LocalPath [''lp'', ''sub'', ''f.txt'']]\<rparr>
     \<lparr>root_tl = [''re''], paths = []\<rparr> =
   Inr \<lparr>root_tl = [''lp''], paths = [PyBool True, PyBool True]\<rparr>"
  by (simp add: mod_tl_def u_key_def relative_to_def is_anchor_def sim_sel lookup_node_def
      paths_eval sim0_def)

lemma put_diff_lp:
  "put_diff 5 sim_system sim0 0 ''lp'' ''re'' None None = Some (Inl AttributeError, sim0)"
  using remote_tree_re [of 4]
  by (simp add: put_diff_def paths_eval local_tree_lp mod_lp u_put_tree_def directories_def)

text \<open>
  C8. \<open>put_diff\<close> should preserve modification times unless told otherwise and run the
  directory-then-file upload that \<open>put_r\<close> runs. Its declared default is as claimed, but
  the upload of \<open>lp\<close> to the empty remote directory \<open>re\<close> raises \<open>AttributeError\<close> and
  leaves the transport as it was, with the default and with either explicit choice;
  \<open>put_r\<close> on the same input creates \<open>re/sub\<close> and transfers the file, setting the
  file's times when told to.
\<close>

theorem put_diff_uploads_nothing:
  "put_diff 5 sim_system sim0 0 ''lp'' ''re'' None None = Some (Inl AttributeError, sim0) \<and>
   put_diff 5 sim_system sim0 0 ''lp'' ''re'' None (Some True) = Some (Inl AttributeError, sim0) \<and>
   put_diff 5 sim_system sim0 0 ''lp'' ''re'' None (Some False) = Some (Inl AttributeError, sim0) \<and>
   fst (put_r sim_system sim0 0 ''lp'' ''re'' None None) = Inr () \<and>
   calls (snd (put_r sim_system sim0 0 ''lp'' ''re'' None None)) =
     [Mkdir ''re/sub'', Put ''lp/sub/f.txt'' ''re/sub/f.txt''] \<and>
   calls (snd (put_r sim_system sim0 0 ''lp'' ''re'' None (Some True))) =
     [Mkdir ''re/sub'', OsUtime ''lp/sub'' 9000 9000, Put ''lp/sub/f.txt'' ''re/sub/f.txt'',
      Utime ''re/sub/f.txt'' 333 444]"
  apply (simp add: put_diff_ignores_options [of _ _ _ _ _ _ None "Some True" None None]
      put_diff_ignores_options [of _ _ _ _ _ _ None "Some False" None None] put_diff_lp)
  apply (simp add: put_r_def paths_eval local_tree_lp)
  apply (simp add: upload_defs sim_mkdir_def)
  done

section \<open>Properties of the path handle\<close>

lemma stat_refetches:
  "u_stat w = None \<Longrightarrow>
   fst (stat S s w) =
     (case u_accessor w of None \<Rightarrow> Inl AttributeError | Some a \<Rightarrow> sftp_stat S s (fspath w))"
  by (simp add: stat_def split: option.splits sum.splits)

lemma open_resets: "fst (snd (WebPath_open S s w mode enc errs nl)) = u_reset_stat w"
  by (simp add: WebPath_open_def Let_def split: option.splits prod.splits)

lemma mkdir_resets: "fst (snd (mkdir S s w False)) = u_reset_stat w"
  by (simp add: mkdir_def Let_def split: option.splits prod.splits)

lemma rmdir_resets: "fst (snd (rmdir S s w)) = u_reset_stat w"
  by (simp add: rmdir_def Let_def split: option.splits prod.splits)

lemma touch_resets: "fst (snd (touch S s w ok)) = u_reset_stat w"
  by (simp add: touch_def Let_def split: option.splits prod.splits sum.splits)

lemma unlink_resets: "fst (snd (unlink S s w)) = u_reset_stat w"
  by (simp add: unlink_def Let_def split: option.splits prod.splits)

lemma reset_fields:
  "u_stat (u_reset_stat w) = None" "u_accessor (u_reset_stat w) = u_accessor w"
  "fspath (u_reset_stat w) = fspath w"
  by (simp_all add: u_reset_stat_def fspath_def)

text \<open>\<open>mkdir\<close> with \<open>parents\<close> set fails its assertion before it touches the handle.\<close>

lemma mkdir_parents: "mkdir S s w True = (Inl AssertionError, w, s)"
  by (simp add: mkdir_def)

text \<open>
  C7. Each of \<open>open\<close>, \<open>mkdir\<close>, \<open>rmdir\<close>, \<open>touch\<close> and \<open>unlink\<close> leaves the handle without
  cached stat, whatever the transport answers, so that the next \<open>stat\<close>, in whatever
  state \<open>s'\<close>, asks the transport again; and the child handle that path-join gives has
  no cached stat and the accessor of its parent.
\<close>

theorem mutators_reset_cached_stat:
  "u_stat (fst (snd (WebPath_open S s w mode enc errs nl))) = None \<and>
   u_stat (fst (snd (mkdir S s w False))) = None \<and>
   u_stat (fst (snd (rmdir S s w))) = None \<and>
   u_stat (fst (snd (touch S s w ok))) = None \<and>
   u_stat (fst (snd (unlink S s w))) = None \<and>
   fst (stat S s' (fst (snd (WebPath_open S s w mode enc errs nl)))) =
     (case u_accessor w of None \<Rightarrow> Inl AttributeError | Some a \<Rightarrow> sftp_stat S s' (fspath w)) \<and>
   fst (stat S s' (fst (snd (mkdir S s w False)))) =
     (case u_accessor w of None \<Rightarrow> Inl AttributeError | Some a \<Rightarrow> sftp_stat S s' (fspath w)) \<and>
   fst (stat S s' (fst (snd (rmdir S s w)))) =
     (case u_accessor w of None \<Rightarrow> Inl AttributeError | Some a \<Rightarrow> sftp_stat S s' (fspath w)) \<and>
   fst (stat S s' (fst (snd (touch S s w ok)))) =
     (case u_accessor w of None \<Rightarrow> Inl AttributeError | Some a \<Rightarrow> sftp_stat S s' (fspath w)) \<and>
   fst (stat S s' (fst (snd (unlink S s w)))) =
     (case u_accessor w of None \<Rightarrow> Inl AttributeError | Some a \<Rightarrow> sftp_stat S s' (fspath w)) \<and>
   u_stat (WebPath_truediv w other) = None \<and>
   u_accessor (WebPath_truediv w other) = u_accessor w"
  by (simp add: open_resets mkdir_resets rmdir_resets touch_resets unlink_resets reset_fields
      stat_refetches WebPath_truediv_def split: option.splits)

text \<open>
  For a handle without cached stat, \<open>is_dir\<close> and \<open>is_file\<close> answer false when the
  transport's \<open>stat\<close> raises \<open>FileNotFoundError\<close> and raise any other exception of it
  unchanged. \<open>SFTPHandler.isdir\<close> answers false for every \<open>OSError\<close> of the transport's
  \<open>stat\<close>, a refusal included, and raises only what is not an \<open>OSError\<close>.
\<close>

theorem classification_failures:
  assumes "u_stat w = None" and "u_accessor w = Some a"
    and "sftp_stat S s (fspath w) = Inl e"
    and "sftp_stat S s (as_posix (Path p)) = Inl e'"
  shows "is_dir S s w = (if e = FileNotFoundError then Inr False else Inl e, w) \<and>
         is_file S s w = (if e = FileNotFoundError then Inr False else Inl e, w) \<and>
         isdir S s self p = (if is_OSError e' then Inr False else Inl e')"
  using assms
  by (cases e')
    (simp_all add: is_dir_def is_file_def u_mode_def stat_def isdir_def SFTPHandler_Path_def
      fspath_def)

text \<open>
  A path that does not exist on the simulated transport, and a path on the transport
  that refuses \<open>stat\<close>: the handle's \<open>is_dir\<close> raises the refusal, \<open>isdir\<close> answers false.
\<close>

theorem classification_failures_witness:
  "u_stat (SFTPHandler_Path 0 ''nowhere'') = None \<and>
   u_accessor (SFTPHandler_Path 0 ''nowhere'') = Some 0 \<and>
   sftp_stat sim_system sim0 (fspath (SFTPHandler_Path 0 ''nowhere'')) = Inl FileNotFoundError \<and>
   sftp_stat denied_system sim0 (fspath (SFTPHandler_Path 0 ''nowhere'')) = Inl PermissionError \<and>
   sftp_stat sim_system sim0 (as_posix (Path ''nowhere'')) = Inl FileNotFoundError \<and>
   sftp_stat denied_system sim0 (as_posix (Path ''nowhere'')) = Inl PermissionError \<and>
   is_dir sim_system sim0 (SFTPHandler_Path 0 ''nowhere'') =
     (Inr False, SFTPHandler_Path 0 ''nowhere'') \<and>
   is_file sim_system sim0 (SFTPHandler_Path 0 ''nowhere'') =
     (Inr False, SFTPHandler_Path 0 ''nowhere'') \<and>
   isdir sim_system sim0 0 ''nowhere'' = Inr False \<and>
   is_dir denied_system sim0 (SFTPHandler_Path 0 ''nowhere'') =
     (Inl PermissionError, SFTPHandler_Path 0 ''nowhere'') \<and>
   is_file denied_system sim0 (SFTPHandler_Path 0 ''nowhere'') =
     (Inl PermissionError, SFTPHandler_Path 0 ''nowhere'') \<and>
   isdir denied_system sim0 0 ''nowhere'' = Inr False"
proof -
  have 1: "u_stat (SFTPHandler_Path 0 ''nowhere'') = None"
    and 2: "u_accessor (SFTPHandler_Path 0 ''nowhere'') = Some 0"
    by (simp_all add: SFTPHandler_Path_def)
  have 4: "sftp_stat sim_system sim0 (as_posix (Path ''nowhere'')) = Inl FileNotFoundError"
    by (simp add: paths_eval sim_sel lookup_node_def sim0_def)
  have 3: "sftp_stat sim_system sim0 (fspath (SFTPHandler_Path 0 ''nowhere'')) =
             Inl FileNotFoundError"
    using 4 by (simp add: SFTPHandler_Path_def fspath_def)
  have 5: "sftp_stat denied_system sim0 (fspath (SFTPHandler_Path 0 ''nowhere'')) =
             Inl PermissionError"
    and 6: "sftp_stat denied_system sim0 (as_posix (Path ''nowhere'')) = Inl PermissionError"
    by (simp_all add: denied_system_def)
  show ?thesis
    using 1 2 3 4 5 6 classification_failures [OF 1 2 3 4, of 0]
      classification_failures [OF 1 2 5 6, of 0]
    by simp
qed

text \<open>
  Elsewhere in the engine a failure of a primitive ends the operation and reaches the
  caller as it is: the listing in the walk, \<open>mkdir\<close> and the byte transfer in the
  upload, and each step of a loop.
\<close>

lemma listing_failure_propagates:
  "sftp_listdir_attr S s p = Inl e \<Longrightarrow>
   rm_r (Suc n) S s self p rr = Some (Inl e, s) \<and>
   put_diff (Suc n) S s self l p c pm = Some (Inl e, s)"
  by (simp add: rm_r_def put_diff_def u_remote_tree_def from_walk_def)

lemma mkdir_failure_propagates:
  "remote_name t rp ld = Inr rd \<Longrightarrow> rd \<noteq> ''.'' \<Longrightarrow> isdir S s self rd = Inr False \<Longrightarrow>
   sftp_mkdir S s rd = Inl e \<Longrightarrow> put_tree_directory S self t rp pm s ld = (Inl e, s)"
  by (simp add: put_tree_directory_def write_res_def)

lemma put_failure_propagates:
  "sftp_put S s l r c = Inl e \<Longrightarrow> put S s l r c pm = (Inl e, s)"
  by (simp add: put_def)

lemma for_filter_failure_propagates:
  "f s x = Inr True \<Longrightarrow> body s x = (Inl e, s') \<Longrightarrow> for_filter f body (x # xs) s = (Inl e, s')"
  by simp

text \<open>
  C6. A failure of a primitive other than not-found should reach the caller of the
  enclosing operation unchanged. On a transport that refuses \<open>stat\<close>, the handle's
  \<open>is_dir\<close> raises the refusal, as the claim says, and \<open>isdir\<close>, whose guard is written
  for a missing file, answers false: the refusal does not reach the upload that asked.
\<close>

theorem isdir_swallows_permission_error:
  "sftp_stat denied_system sim0 ''rp/sub'' = Inl PermissionError \<and>
   fst (is_dir denied_system sim0 (SFTPHandler_Path 0 ''rp/sub'')) = Inl PermissionError \<and>
   isdir denied_system sim0 0 ''rp/sub'' = Inr False"
  by (simp add: denied_system_def isdir_def is_dir_def u_mode_def stat_def SFTPHandler_Path_def)

section \<open>Properties of the stream adapter\<close>

lemma utf8_hello: "utf8_encode hello = Inr hello_utf8"
  by (simp add: hello_def hello_utf8_def)

lemma utf8_hello_back: "utf8_decode hello_utf8 = Inr hello"
  by (simp add: hello_def hello_utf8_def continuation_def cons_result_def Let_def)

lemma open_w:
  "SFTPHandler_open sim_system sim0 ''rp/t.txt'' ''w'' (Some ''utf-8'') None None =
     (Inr text_stream, sim_opened)"
  by (simp add: SFTPHandler_open_def sim_sel sim_open_def paths_eval Let_def text_stream_def
      sim_opened_def sim0_def)

lemma open_rb:
  "SFTPHandler_open sim_system sim_written ''rp/t.txt'' ''rb'' None None None =
     (Inr binary_stream, sim_reopened)"
  by (simp add: SFTPHandler_open_def sim_sel sim_open_def paths_eval Let_def binary_stream_def
      sim_reopened_def sim_written_def sim_opened_def sim0_def FLAG_BINARY_def)

lemma write_hello:
  "file_write sim_system sim_opened (file_handler text_stream) (Bytes hello_utf8) =
     Inr sim_written"
  by (simp add: sim_sel sim_file_write_def text_stream_def sim_opened_def sim_written_def
      contents_def Let_def)

lemma read_hello:
  "file_read sim_system sim_reopened (file_handler binary_stream) None =
     Inr (hello_utf8, sim_reopened)"
  "file_read sim_system sim_reopened (file_handler text_stream) None =
     Inr (hello_utf8, sim_reopened)"
  by (simp_all add: sim_sel sim_file_read_def text_stream_def binary_stream_def sim_opened_def
      sim_written_def sim_reopened_def contents_def Let_def)

lemma stream_flags: "u_is_binary text_stream = 0" "u_is_binary binary_stream = 16"
  by (simp_all add: u_is_binary_def text_stream_def binary_stream_def FLAG_BINARY_def)

text \<open>
  C9. A text written through a text-mode stream reaches the file as its encoding in
  the stream's codec, and a binary-mode stream returns the bytes that the file gives:
  with the codec \<open>utf-8\<close> and a transport that gives back what was written, the UTF-8
  encoding of the text. A binary-mode stream also writes its data as they are, and a
  text-mode stream returns the decoding of the bytes it reads.
\<close>

theorem stream_adapter_round_trip:
  assumes "u_is_binary fw = 0" and "encoding fw = Some n"
    and "codec_encode S n t = Inr b"
    and "file_write S s (file_handler fw) (Bytes b) = Inr s1"
    and "u_is_binary fr \<noteq> 0"
    and "file_read S s2 (file_handler fr) sz = Inr (b, s3)"
    and "file_read S s4 (file_handler fw) sz' = Inr (b, s5)"
    and "codec_decode S n b = Inr t'"
  shows "FileHandler_write S s fw (Str t) = (Inr (), s1) \<and>
         FileHandler_read S s2 fr sz = (Inr (Bytes b), s3) \<and>
         FileHandler_write S s6 fr d = write_res s6 (file_write S s6 (file_handler fr) d) \<and>
         FileHandler_read S s4 fw sz' = (Inr (Str t'), s5)"
  using assms
  by (simp add: FileHandler_write_def FileHandler_read_def encode_def decode_def write_res_def)

text \<open>
  The three code points written to \<open>rp/t.txt\<close> through a stream opened with mode \<open>w\<close>
  and encoding \<open>utf-8\<close>, and read back through a stream opened with mode \<open>rb\<close>.
\<close>

theorem stream_adapter_round_trip_witness:
  "SFTPHandler_open sim_system sim0 ''rp/t.txt'' ''w'' (Some ''utf-8'') None None =
     (Inr text_stream, sim_opened) \<and>
   u_is_binary text_stream = 0 \<and> encoding text_stream = Some ''utf-8'' \<and>
   codec_encode sim_system ''utf-8'' hello = Inr hello_utf8 \<and>
   file_write sim_system sim_opened (file_handler text_stream) (Bytes hello_utf8) =
     Inr sim_written \<and>
   SFTPHandler_open sim_system sim_written ''rp/t.txt'' ''rb'' None None None =
     (Inr binary_stream, sim_reopened) \<and>
   u_is_binary binary_stream = 16 \<and>
   file_read sim_system sim_reopened (file_handler binary_stream) None =
     Inr (hello_utf8, sim_reopened) \<and>
   file_read sim_system sim_reopened (file_handler text_stream) None =
     Inr (hello_utf8, sim_reopened) \<and>
   codec_decode sim_system ''utf-8'' hello_utf8 = Inr hello \<and>
   FileHandler_write sim_system sim_opened text_stream (Str hello) = (Inr (), sim_written) \<and>
   FileHandler_read sim_system sim_reopened binary_stream None =
     (Inr (Bytes hello_utf8), sim_reopened) \<and>
   FileHandler_read sim_system sim_reopened text_stream None = (Inr (Str hello), sim_reopened)"
proof -
  have 1: "u_is_binary text_stream = 0"
    by (rule stream_flags)
  have 2: "encoding text_stream = Some ''utf-8''"
    by (simp add: text_stream_def)
  have 3: "codec_encode sim_system ''utf-8'' hello = Inr hello_utf8"
    by (simp add: sim_sel sim_encode_def utf8_hello)
  have 5: "u_is_binary binary_stream \<noteq> 0"
    by (simp add: stream_flags)
  have 8: "codec_decode sim_system ''utf-8'' hello_utf8 = Inr hello"
    by (simp add: sim_sel sim_decode_def utf8_hello_back)
  show ?thesis
    using open_w open_rb 1 2 3 write_hello read_hello 8 stream_flags(2)
      stream_adapter_round_trip [OF 1 2 3 write_hello 5 read_hello(1) read_hello(2) 8]
    by simp
qed

end
